theory Spec2Isabelle
  imports Main
begin

section \<open>JavaScript values and string helpers\<close>

text \<open>
  The handlers work on untyped JSON: a request body is whatever \<^verbatim>\<open>request.json()\<close>
  returns, and a report row is indexed by a column name. Values are modelled by one
  datatype; a property that is absent (\<^verbatim>\<open>undefined\<close>) is the value \<open>JUndefined\<close>.
  Numbers are restricted to integers. A \<^verbatim>\<open>Date\<close> object (the store returns them for
  timestamp columns) carries the text its \<^verbatim>\<open>toString()\<close> gives. An object is the list
  of its own properties. \<open>JFun n\<close> is the built-in function named \<open>n\<close>, which a property
  read can find on the prototype of an object. A text is the list of the bytes of its
  UTF-8 encoding.
\<close>

datatype jsval =
    JUndefined
  | JNull
  | JBool bool
  | JNum int
  | JStr string
  | JDate string
  | JArr "jsval list"
  | JObj "(string \<times> jsval) list"
  | JFun string

text \<open>Truthiness, as used by \<^verbatim>\<open>!x\<close>, \<^verbatim>\<open>x || y\<close> and \<^verbatim>\<open>if (x)\<close>.\<close>

fun truthy :: "jsval \<Rightarrow> bool" where
  "truthy JUndefined = False"
| "truthy JNull = False"
| "truthy (JBool b) = b"
| "truthy (JNum n) = (n \<noteq> 0)"
| "truthy (JStr s) = (s \<noteq> [])"
| "truthy (JDate d) = True"
| "truthy (JArr xs) = True"
| "truthy (JObj kvs) = True"
| "truthy (JFun n) = True"

text \<open>\<^verbatim>\<open>a || b\<close>\<close>

definition js_or :: "jsval \<Rightarrow> jsval \<Rightarrow> jsval" where
  "js_or a b = (if truthy a then a else b)"

text \<open>Decimal rendering of numbers, as \<^verbatim>\<open>String(n)\<close> gives for an integer.\<close>

definition digit_char :: "nat \<Rightarrow> char" where
  "digit_char d = ''0123456789'' ! (d mod 10)"

fun string_of_nat :: "nat \<Rightarrow> string" where
  "string_of_nat n =
     (if n < 10 then [digit_char n] else string_of_nat (n div 10) @ [digit_char (n mod 10)])"

declare string_of_nat.simps [simp del]

definition string_of_int :: "int \<Rightarrow> string" where
  "string_of_int i = (if i < 0 then CHR ''-'' # string_of_nat (nat (- i)) else string_of_nat (nat i))"

text \<open>\<^verbatim>\<open>xs.join(sep)\<close> on an array of strings.\<close>

fun join :: "string \<Rightarrow> string list \<Rightarrow> string" where
  "join sep [] = []"
| "join sep [x] = x"
| "join sep (x # y # ys) = x @ sep @ join sep (y # ys)"

text \<open>\<^verbatim>\<open>s.toLowerCase()\<close> on ASCII letters, and \<^verbatim>\<open>s.includes(needle)\<close>.\<close>

definition to_lower_char :: "char \<Rightarrow> char" where
  "to_lower_char c =
     (case map_of (zip ''ABCDEFGHIJKLMNOPQRSTUVWXYZ'' ''abcdefghijklmnopqrstuvwxyz'') c of
        Some l \<Rightarrow> l
      | None \<Rightarrow> c)"

definition to_lower :: "string \<Rightarrow> string" where
  "to_lower s = map to_lower_char s"

fun starts_with :: "string \<Rightarrow> string \<Rightarrow> bool" where
  "starts_with [] s = True"
| "starts_with (p # ps) [] = False"
| "starts_with (p # ps) (c # cs) = (p = c \<and> starts_with ps cs)"

fun str_includes :: "string \<Rightarrow> string \<Rightarrow> bool" where
  "str_includes [] needle = (needle = [])"
| "str_includes (c # cs) needle = (starts_with needle (c # cs) \<or> str_includes cs needle)"


text \<open>The characters the generators name: double quote, newline, tab.\<close>

abbreviation DQ :: char where "DQ \<equiv> CHR 0x22"
abbreviation NL :: char where "NL \<equiv> CHR 0x0A"
abbreviation TAB :: char where "TAB \<equiv> CHR 0x09"

text \<open>
  \<^verbatim>\<open>String(v)\<close>, which is also what a template literal applies to an interpolated value.
  Inside \<^verbatim>\<open>Array.prototype.toString\<close> the elements \<^verbatim>\<open>null\<close> and \<^verbatim>\<open>undefined\<close> are rendered
  as the empty string.
\<close>

fun js_String :: "jsval \<Rightarrow> string" where
  "js_String JUndefined = ''undefined''"
| "js_String JNull = ''null''"
| "js_String (JBool b) = (if b then ''true'' else ''false'')"
| "js_String (JNum n) = string_of_int n"
| "js_String (JStr s) = s"
| "js_String (JDate d) = d"
| "js_String (JArr xs) =
     join '','' (map (\<lambda>x. if x = JUndefined \<or> x = JNull then [] else js_String x) xs)"
| "js_String (JObj kvs) = ''[object Object]''"
| "js_String (JFun n) = ''function '' @ n @ ''() { [native code] }''"

text \<open>\<^verbatim>\<open>xs.join(sep)\<close> on an array of arbitrary values.\<close>

definition js_join :: "string \<Rightarrow> jsval list \<Rightarrow> string" where
  "js_join sep xs =
     join sep (map (\<lambda>x. if x = JUndefined \<or> x = JNull then [] else js_String x) xs)"

text \<open>
  The members that every plain object inherits from \<^verbatim>\<open>Object.prototype\<close>: its
  \<^verbatim>\<open>constructor\<close> is the function \<^verbatim>\<open>Object\<close>, \<^verbatim>\<open>__proto__\<close> reads as the prototype itself
  (an object), the others are methods.
\<close>

definition Object_prototype :: "(string \<times> jsval) list" where
  "Object_prototype =
     [(''constructor'', JFun ''Object''),
      (''__defineGetter__'', JFun ''__defineGetter__''),
      (''__defineSetter__'', JFun ''__defineSetter__''),
      (''hasOwnProperty'', JFun ''hasOwnProperty''),
      (''__lookupGetter__'', JFun ''__lookupGetter__''),
      (''__lookupSetter__'', JFun ''__lookupSetter__''),
      (''isPrototypeOf'', JFun ''isPrototypeOf''),
      (''propertyIsEnumerable'', JFun ''propertyIsEnumerable''),
      (''toString'', JFun ''toString''),
      (''valueOf'', JFun ''valueOf''),
      (''__proto__'', JObj []),
      (''toLocaleString'', JFun ''toLocaleString'')]"

text \<open>
  \<^verbatim>\<open>obj[key]\<close> on a plain object: the object's own property (the first binding of the
  key), else the inherited member, else \<^verbatim>\<open>undefined\<close>.
\<close>

definition get_prop :: "(string \<times> jsval) list \<Rightarrow> string \<Rightarrow> jsval" where
  "get_prop obj k =
     (case map_of obj k of
        Some v \<Rightarrow> v
      | None \<Rightarrow> (case map_of Object_prototype k of Some v \<Rightarrow> v | None \<Rightarrow> JUndefined))"

text \<open>\<^verbatim>\<open>s.replace(/"/g, '""')\<close> and \<^verbatim>\<open>s.replace(/_/g, ' ')\<close>.\<close>

definition double_quotes :: "string \<Rightarrow> string" where
  "double_quotes s = concat (map (\<lambda>c. if c = DQ then [DQ, DQ] else [c]) s)"

definition underscores_to_spaces :: "string \<Rightarrow> string" where
  "underscores_to_spaces s = map (\<lambda>c. if c = CHR ''_'' then CHR '' '' else c) s"

text \<open>
  White space, as the class \<^verbatim>\<open>\s\<close> of a pattern has it: tab, line feed, vertical tab, form
  feed, carriage return, space, and the characters U+00A0, U+1680, U+2000 to U+200A,
  U+2028, U+2029, U+202F, U+205F, U+3000 and U+FEFF, each given by its UTF-8 encoding.
\<close>

definition space_encodings :: "string list" where
  "space_encodings =
     [[CHR '' ''], [TAB], [NL], [CHR 0x0B], [CHR 0x0C], [CHR 0x0D],
      [CHR 0xC2, CHR 0xA0],
      [CHR 0xE1, CHR 0x9A, CHR 0x80],
      [CHR 0xE2, CHR 0x80, CHR 0x80], [CHR 0xE2, CHR 0x80, CHR 0x81],
      [CHR 0xE2, CHR 0x80, CHR 0x82], [CHR 0xE2, CHR 0x80, CHR 0x83],
      [CHR 0xE2, CHR 0x80, CHR 0x84], [CHR 0xE2, CHR 0x80, CHR 0x85],
      [CHR 0xE2, CHR 0x80, CHR 0x86], [CHR 0xE2, CHR 0x80, CHR 0x87],
      [CHR 0xE2, CHR 0x80, CHR 0x88], [CHR 0xE2, CHR 0x80, CHR 0x89],
      [CHR 0xE2, CHR 0x80, CHR 0x8A],
      [CHR 0xE2, CHR 0x80, CHR 0xA8], [CHR 0xE2, CHR 0x80, CHR 0xA9],
      [CHR 0xE2, CHR 0x80, CHR 0xAF],
      [CHR 0xE2, CHR 0x81, CHR 0x9F],
      [CHR 0xE3, CHR 0x80, CHR 0x80],
      [CHR 0xEF, CHR 0xBB, CHR 0xBF]]"

text \<open>
  \<open>space_at s\<close> is the number of bytes of the white-space character with which \<open>s\<close>
  begins, 0 when it begins with none; \<open>has_space s\<close> tells whether one occurs in \<open>s\<close>.
\<close>

definition space_at :: "string \<Rightarrow> nat" where
  "space_at s =
     (case find (\<lambda>enc. starts_with enc s) space_encodings of
        Some enc \<Rightarrow> length enc
      | None \<Rightarrow> 0)"

fun has_space :: "string \<Rightarrow> bool" where
  "has_space [] = False"
| "has_space (c # cs) = (space_at (c # cs) > 0 \<or> has_space cs)"

text \<open>
  \<^verbatim>\<open>s.replace(/\s+/g, '-')\<close>: every maximal run of white space becomes one hyphen.
  \<open>in_run\<close> tells that the text just read was white space, \<open>skip\<close> counts the bytes of a
  white-space character still to pass over.
\<close>

fun replace_spaces :: "bool \<Rightarrow> nat \<Rightarrow> string \<Rightarrow> string" where
  "replace_spaces in_run skip [] = []"
| "replace_spaces in_run skip (c # cs) =
     (if skip > 0 then replace_spaces in_run (skip - 1) cs
      else if space_at (c # cs) > 0 then
        (if in_run then [] else ''-'') @ replace_spaces True (space_at (c # cs) - 1) cs
      else c # replace_spaces False 0 cs)"

definition spaces_to_hyphen :: "string \<Rightarrow> string" where
  "spaces_to_hyphen s = replace_spaces False 0 s"

section \<open>The store, the collaborators and the responses\<close>

text \<open>
  The handlers reach the relational store through an ORM client. The store is modelled as
  a record of tables, each table a list of rows in insertion order; a handler takes the
  store and returns its response with the store it leaves behind. The store itself is
  taken to be reliable: a query raises only where the model says so (a primary key that
  is already taken).
\<close>

record user =
  usr_id :: string
  usr_tenantId :: "string option"
  usr_name :: jsval
  usr_email :: jsval
  usr_phone :: jsval
  usr_role :: jsval
  usr_availabilityStatus :: jsval
  usr_department :: jsval
  usr_position :: jsval
  usr_createdAt :: jsval
  usr_lastLoginAt :: jsval

text \<open>
  An export schedule. The creation handler stores the body's fields as it received them,
  without checking their types, so they are kept as untyped values.
\<close>

record export_schedule =
  es_id :: string
  es_name :: jsval
  es_description :: jsval
  es_frequency :: jsval
  es_format :: jsval
  es_recipients :: jsval
  es_dayOfWeek :: jsval
  es_dayOfMonth :: jsval
  es_time :: jsval
  es_emailSubject :: jsval
  es_emailBody :: jsval
  es_filterPresetId :: jsval
  es_isActive :: jsval
  es_tenantId :: string
  es_userId :: string
  es_createdAt :: nat
  es_updatedAt :: nat

record export_schedule_execution =
  ese_id :: string
  ese_scheduleId :: string

record db =
  user_rows :: "user list"
  exportSchedule_rows :: "export_schedule list"
  exportScheduleExecution_rows :: "export_schedule_execution list"

text \<open>
  What a handler learns from its collaborators during one request: the rate limiter's
  verdict for an identifier, the id of the session's user (\<open>None\<close> when there is no
  session), the permission service and the clock.
\<close>

record env =
  rateLimit :: "string \<Rightarrow> bool"
  session_user_id :: "string option"
  hasPermission :: "string \<Rightarrow> string \<Rightarrow> bool"
  now :: nat

text \<open>
  The parts of a request that the handlers read: the \<^verbatim>\<open>x-forwarded-for\<close> header, the body
  (\<open>None\<close> when \<^verbatim>\<open>request.json()\<close> raises because the body is not JSON) and the \<^verbatim>\<open>ids\<close>
  query parameter.
\<close>

record request =
  x_forwarded_for :: "string option"
  json_body :: "jsval option"
  ids_param :: "string option"

text \<open>
  An exception of the source is a value: \<open>Error m\<close> for an \<^verbatim>\<open>Error\<close> object with message
  \<open>m\<close>, \<open>Thrown v\<close> for any other thrown value.
\<close>

datatype thrown = Error string | Thrown jsval

text \<open>
  \<^verbatim>\<open>crypto.getRandomUUID()\<close>, called at lines 55 and 401 of the route file to make the id
  of a new row. The file imports nothing under the name \<^verbatim>\<open>crypto\<close>, so this is the global
  object of the runtime, whose members are \<^verbatim>\<open>randomUUID\<close>, \<^verbatim>\<open>getRandomValues\<close> and
  \<^verbatim>\<open>subtle\<close>. It has no member \<^verbatim>\<open>getRandomUUID\<close>: the call raises a \<^verbatim>\<open>TypeError\<close>.
\<close>

definition crypto_getRandomUUID :: "thrown + string" where
  "crypto_getRandomUUID = Inl (Error ''crypto.getRandomUUID is not a function'')"

text \<open>
  \<^verbatim>\<open>const { a, b } = body\<close>: reading a property of \<^verbatim>\<open>null\<close> raises a \<^verbatim>\<open>TypeError\<close>; a body
  that is no object has none of the properties.
\<close>

definition destructure :: "jsval \<Rightarrow> thrown + (string \<Rightarrow> jsval)" where
  "destructure b =
     (case b of
        JObj kvs \<Rightarrow> Inr (get_prop kvs)
      | JNull \<Rightarrow> Inl (Error ''Cannot destructure property of null'')
      | JUndefined \<Rightarrow> Inl (Error ''Cannot destructure property of undefined'')
      | _ \<Rightarrow> Inr (\<lambda>k. JUndefined))"

text \<open>\<^verbatim>\<open>request.headers.get('x-forwarded-for') || 'anonymous'\<close>\<close>

definition identifier_of :: "request \<Rightarrow> string" where
  "identifier_of req =
     (case x_forwarded_for req of
        Some h \<Rightarrow> if h \<noteq> [] then h else ''anonymous''
      | None \<Rightarrow> ''anonymous'')"

text \<open>\<^verbatim>\<open>session?.user?.id\<close> is truthy.\<close>

definition session_id :: "env \<Rightarrow> string option" where
  "session_id e =
     (case session_user_id e of
        Some uid \<Rightarrow> if uid \<noteq> [] then Some uid else None
      | None \<Rightarrow> None)"

text \<open>\<^verbatim>\<open>s.split(',')\<close>: never the empty array.\<close>

fun split_comma :: "string \<Rightarrow> string list" where
  "split_comma [] = [[]]"
| "split_comma (c # cs) =
     (if c = CHR '','' then [] # split_comma cs
      else (case split_comma cs of
              p # ps \<Rightarrow> (c # p) # ps
            | [] \<Rightarrow> [[c]]))"

section \<open>Report formatting\<close>

text \<open>
  \<^verbatim>\<open>src/app/api/admin/reports/[id]/generate/route.ts\<close>, lines 179--243. A row is an
  object indexed by column name. \<^verbatim>\<open>reportData\<close> is typed \<^verbatim>\<open>any\<close> in the source and each of
  its parts is tested for presence, so each is optional here.
\<close>

record column =
  c_name :: string
  c_label :: string

type_synonym row = "(string \<times> jsval) list"

record report_data =
  rd_columns :: "column list option"
  rd_rows :: "row list option"
  rd_rowCount :: nat
  rd_summary :: "(string \<times> jsval) list option"

text \<open>The two fields of a report that the formatters read.\<close>

record report_head =
  r_name :: string
  r_description :: "string option"

subsection \<open>generateExcelReport\<close>

definition default_columns :: "column list" where
  "default_columns =
     [\<lparr>c_name = ''name'', c_label = ''Name''\<rparr>,
      \<lparr>c_name = ''email'', c_label = ''Email''\<rparr>,
      \<lparr>c_name = ''role'', c_label = ''Role''\<rparr>,
      \<lparr>c_name = ''availabilityStatus'', c_label = ''Status''\<rparr>]"

text \<open>Line 212: \<^verbatim>\<open>columns.map(c => row[c.name] || '').join('\t') + '\n'\<close>\<close>

definition tsv_row :: "column list \<Rightarrow> row \<Rightarrow> string" where
  "tsv_row columns row =
     js_join [TAB] (map (\<lambda>c. js_or (get_prop row (c_name c)) (JStr [])) columns) @ [NL]"

text \<open>
  \<open>today\<close> stands for \<^verbatim>\<open>new Date().toLocaleDateString()\<close>. Each \<^verbatim>\<open>forEach\<close> appends
  to the accumulator \<^verbatim>\<open>tsv\<close>.
\<close>

definition generateExcelReport :: "string \<Rightarrow> ('a report_head_scheme) \<Rightarrow> report_data \<Rightarrow> string" where
  "generateExcelReport today report reportData =
     (let tsv = [];
          tsv = tsv @ r_name report @ [NL];
          tsv = (case r_description report of
                   Some d \<Rightarrow> if d \<noteq> [] then tsv @ d @ [NL] else tsv
                 | None \<Rightarrow> tsv);
          tsv = tsv @ ''Generated: '' @ today @ [NL, NL];
          tsv = (case rd_summary reportData of
                   Some summary \<Rightarrow>
                     if length summary > 0 then
                       foldl (\<lambda>tsv (key, value).
                                tsv @ underscores_to_spaces key @ [TAB] @ js_String value @ [NL])
                             (tsv @ ''SUMMARY'' @ [NL]) summary @ [NL, NL]
                     else tsv
                 | None \<Rightarrow> tsv);
          tsv = (case rd_rows reportData of
                   Some rows \<Rightarrow>
                     if length rows > 0 then
                       (let columns = (case rd_columns reportData of
                                         Some cs \<Rightarrow> cs | None \<Rightarrow> default_columns)
                        in foldl (\<lambda>tsv row. tsv @ tsv_row columns row)
                             (tsv @ join [TAB] (map c_label columns) @ [NL]) rows)
                     else tsv
                 | None \<Rightarrow> tsv)
      in tsv)"

subsection \<open>generateCSVReport\<close>

text \<open>Lines 234--237: one cell of a data line.\<close>

definition csv_cell :: "row \<Rightarrow> column \<Rightarrow> string" where
  "csv_cell row c =
     (let value = js_or (get_prop row (c_name c)) (JStr [])
      in [DQ] @ double_quotes (js_String value) @ [DQ])"

definition csv_row :: "column list \<Rightarrow> row \<Rightarrow> string" where
  "csv_row columns row = join '','' (map (csv_cell row) columns) @ [NL]"

text \<open>Line 227: the header line.\<close>

definition csv_header :: "column list \<Rightarrow> string" where
  "csv_header columns = join '','' (map (\<lambda>c. [DQ] @ c_label c @ [DQ]) columns) @ [NL]"

definition generateCSVReport :: "report_data \<Rightarrow> string" where
  "generateCSVReport reportData =
     (let csv = [];
          csv = (case rd_columns reportData of
                   Some cs \<Rightarrow> if length cs > 0 then csv @ csv_header cs else csv
                 | None \<Rightarrow> csv);
          csv = (case rd_rows reportData of
                   Some rows \<Rightarrow>
                     if length rows > 0 then
                       (let columns = (case rd_columns reportData of Some cs \<Rightarrow> cs | None \<Rightarrow> [])
                        in foldl (\<lambda>csv row. csv @ csv_row columns row) csv rows)
                     else csv
                 | None \<Rightarrow> csv)
      in csv)"

subsection \<open>Reading a fully quoted CSV line back\<close>

text \<open>
  The standard quoting rules (RFC 4180), for the dialect the generator writes, in which
  every field is quoted: a field is enclosed in double quotes; inside it, two double
  quotes stand for one; fields are separated by commas; a record ends with a line break.
  \<open>read_quoted\<close> reads the rest of a field whose opening quote has been consumed and
  returns the field with the text after its closing quote.
\<close>

fun read_quoted :: "string \<Rightarrow> (string \<times> string) option" where
  "read_quoted [] = None"
| "read_quoted [c] = (if c = DQ then Some ([], []) else None)"
| "read_quoted (c # d # cs) =
     (if c = DQ then
        (if d = DQ then map_option (\<lambda>(v, r). (DQ # v, r)) (read_quoted cs)
         else Some ([], d # cs))
      else map_option (\<lambda>(v, r). (c # v, r)) (read_quoted (d # cs)))"

text \<open>
  \<open>read_record fuel s\<close> reads one record of quoted fields up to and including its line
  break; \<open>fuel\<close> bounds the number of fields (the length of the text always suffices).
\<close>

fun read_record :: "nat \<Rightarrow> string \<Rightarrow> (string list \<times> string) option" where
  "read_record 0 s = None"
| "read_record (Suc n) s =
     (case s of
        [] \<Rightarrow> None
      | c # cs \<Rightarrow>
          if c \<noteq> DQ then None
          else (case read_quoted cs of
                  None \<Rightarrow> None
                | Some (v, r) \<Rightarrow>
                    (case r of
                       [] \<Rightarrow> None
                     | e # es \<Rightarrow>
                         if e = NL then Some ([v], es)
                         else if e = CHR '','' then
                           map_option (\<lambda>(vs, r'). (v # vs, r')) (read_record n es)
                         else None)))"

subsection \<open>Notions used to state the properties of the formatters\<close>


text \<open>The text a data cell stands for, before quoting.\<close>

definition cell_text :: "row \<Rightarrow> column \<Rightarrow> string" where
  "cell_text row c = js_String (js_or (get_prop row (c_name c)) (JStr []))"

section \<open>Export schedules\<close>

text \<open>
  The handlers of \<^verbatim>\<open>/api/admin/users/exports/schedule\<close> (lines 244--541 of the route file).
\<close>

datatype schedule_body =
    ErrorBody string
  | SchedulesBody "(export_schedule \<times> nat) list"
  | CreatedBody export_schedule string
  | MessageBody string
  | DeletedBody nat string

record schedule_response =
  status :: nat
  payload :: schedule_body

text \<open>\<^verbatim>\<open>NextResponse.json({ error: msg }, { status: n })\<close>\<close>

definition error_response :: "string \<Rightarrow> nat \<Rightarrow> schedule_response" where
  "error_response msg n = \<lparr>status = n, payload = ErrorBody msg\<rparr>"

text \<open>
  \<^verbatim>\<open>prisma.user.findUnique({ where: { id }, select: { tenantId: true } })\<close> followed by the
  test \<^verbatim>\<open>!user?.tenantId\<close>: the tenant of the user, when it is a non-empty string.
\<close>

definition user_tenant :: "db \<Rightarrow> string \<Rightarrow> string option" where
  "user_tenant d uid =
     (case find (\<lambda>u. usr_id u = uid) (user_rows d) of
        None \<Rightarrow> None
      | Some u \<Rightarrow>
          (case usr_tenantId u of
             None \<Rightarrow> None
           | Some t \<Rightarrow> if t \<noteq> [] then Some t else None))"

text \<open>\<^verbatim>\<open>prisma.exportSchedule.count({ where: { tenantId } })\<close>\<close>

definition schedule_count :: "db \<Rightarrow> string \<Rightarrow> nat" where
  "schedule_count d t = length (filter (\<lambda>s. es_tenantId s = t) (exportSchedule_rows d))"

subsection \<open>GET\<close>


subsection \<open>POST\<close>

text \<open>
  \<^verbatim>\<open>x.length\<close> for the values a JSON body can hold: arrays and strings have a length, an
  object has one only as an own property.
\<close>

definition js_length :: "jsval \<Rightarrow> jsval" where
  "js_length v =
     (case v of
        JArr xs \<Rightarrow> JNum (int (length xs))
      | JStr s \<Rightarrow> JNum (int (length s))
      | JObj kvs \<Rightarrow> get_prop kvs ''length''
      | _ \<Rightarrow> JUndefined)"

text \<open>
  Line 368: \<^verbatim>\<open>!name || !frequency || !format || !recipients || recipients.length === 0\<close>
\<close>

definition missing_required :: "(string \<Rightarrow> jsval) \<Rightarrow> bool" where
  "missing_required f =
     (\<not> truthy (f ''name'') \<or> \<not> truthy (f ''frequency'') \<or> \<not> truthy (f ''format'') \<or>
      \<not> truthy (f ''recipients'') \<or> js_length (f ''recipients'') = JNum 0)"

text \<open>Line 376: \<^verbatim>\<open>['csv', 'xlsx', 'json', 'pdf'].includes(format)\<close>, a strict comparison.\<close>

definition valid_format :: "jsval \<Rightarrow> bool" where
  "valid_format v = (v \<in> set [JStr ''csv'', JStr ''xlsx'', JStr ''json'', JStr ''pdf''])"

text \<open>
  Line 381: the pattern \<^verbatim>\<open>/^[^\s@]+@[^\s@]+\.[^\s@]+$/\<close>. A text matches when it has no white
  space, exactly one \<^verbatim>\<open>@\<close> with something before it, and after it a dot that is neither the
  first nor the last character of that part.
\<close>

definition emailRegex_test :: "string \<Rightarrow> bool" where
  "emailRegex_test s =
     (let a = takeWhile (\<lambda>c. c \<noteq> CHR ''@'') s;
          r = dropWhile (\<lambda>c. c \<noteq> CHR ''@'') s
      in a \<noteq> [] \<and> \<not> has_space a \<and>
         (case r of
            [] \<Rightarrow> False
          | _ # d \<Rightarrow>
              \<not> has_space d \<and> CHR ''@'' \<notin> set d \<and>
              list_ex (\<lambda>i. d ! i = CHR ''.'') [1 ..< length d - 1]))"

text \<open>
  The pattern of the recipient check, read as a set of texts: something, an \<^verbatim>\<open>@\<close>,
  something, a dot, something, where "something" is a non-empty text with no white space
  and no \<^verbatim>\<open>@\<close> in it.
\<close>

definition plain_run :: "string \<Rightarrow> bool" where
  "plain_run s = (s \<noteq> [] \<and> \<not> has_space s \<and> CHR ''@'' \<notin> set s)"

definition matches_email_pattern :: "string \<Rightarrow> bool" where
  "matches_email_pattern s =
     (\<exists>a b c. s = a @ ''@'' @ b @ ''.'' @ c \<and> plain_run a \<and> plain_run b \<and> plain_run c)"

text \<open>
  Line 382: \<^verbatim>\<open>recipients.some((email) => !emailRegex.test(email))\<close>. Only an array has the
  method; on any other value the call raises a \<^verbatim>\<open>TypeError\<close>. The pattern is applied to
  the text of each element.
\<close>

definition some_invalid_email :: "jsval \<Rightarrow> thrown + bool" where
  "some_invalid_email recipients =
     (case recipients of
        JArr xs \<Rightarrow> Inr (list_ex (\<lambda>email. \<not> emailRegex_test (js_String email)) xs)
      | _ \<Rightarrow> Inl (Error ''recipients.some is not a function''))"

text \<open>
  \<^verbatim>\<open>prisma.exportSchedule.create\<close>: the id is the primary key, so the insertion raises
  when the id is taken.
\<close>

definition create_schedule :: "export_schedule \<Rightarrow> db \<Rightarrow> thrown + db" where
  "create_schedule s d =
     (if es_id s \<in> set (map es_id (exportSchedule_rows d))
      then Inl (Error ''Unique constraint failed on the fields: (id)'')
      else Inr (d\<lparr>exportSchedule_rows := exportSchedule_rows d @ [s]\<rparr>))"

text \<open>
  Lines 400--418: the row built from the body, given the id; \<^verbatim>\<open>isActive\<close> defaults to
  \<^verbatim>\<open>true\<close>. The id is the first member of the object literal, so the call that makes it
  is evaluated before anything is sent to the store.
\<close>

definition new_schedule ::
  "env \<Rightarrow> string \<Rightarrow> string \<Rightarrow> string \<Rightarrow> (string \<Rightarrow> jsval) \<Rightarrow> export_schedule" where
  "new_schedule e uuid uid t f =
     \<lparr>es_id = uuid,
      es_name = f ''name'',
      es_description = f ''description'',
      es_frequency = f ''frequency'',
      es_format = f ''format'',
      es_recipients = f ''recipients'',
      es_dayOfWeek = js_or (f ''dayOfWeek'') JNull,
      es_dayOfMonth = js_or (f ''dayOfMonth'') JNull,
      es_time = js_or (f ''time'') (JStr ''09:00''),
      es_emailSubject = f ''emailSubject'',
      es_emailBody = f ''emailBody'',
      es_filterPresetId = js_or (f ''filterPresetId'') JNull,
      es_isActive = (if f ''isActive'' = JUndefined then JBool True else f ''isActive''),
      es_tenantId = t,
      es_userId = uid,
      es_createdAt = now e,
      es_updatedAt = now e\<rparr>"

text \<open>The \<^verbatim>\<open>catch\<close> of each handler: the exception is logged and answered with a 500.\<close>

definition POST_failed :: "schedule_response" where
  "POST_failed = error_response ''Failed to create export schedule'' 500"

definition POST :: "env \<Rightarrow> request \<Rightarrow> db \<Rightarrow> schedule_response \<times> db" where
  "POST e req d =
     (if \<not> rateLimit e (identifier_of req) then (error_response ''Rate limit exceeded'' 429, d)
      else case session_id e of
        None \<Rightarrow> (error_response ''Unauthorized'' 401, d)
      | Some uid \<Rightarrow>
          if \<not> hasPermission e uid ''admin:users:export'' then (error_response ''Forbidden'' 403, d)
          else case user_tenant d uid of
            None \<Rightarrow> (error_response ''User not associated with tenant'' 400, d)
          | Some t \<Rightarrow>
              (case json_body req of
                 None \<Rightarrow> (POST_failed, d)
               | Some b \<Rightarrow>
                   (case destructure b of
                      Inl err \<Rightarrow> (POST_failed, d)
                    | Inr f \<Rightarrow>
                        if missing_required f then
                          (error_response
                             ''Missing required fields: name, frequency, format, recipients'' 400, d)
                        else if \<not> valid_format (f ''format'') then
                          (error_response ''Invalid export format'' 400, d)
                        else (case some_invalid_email (f ''recipients'') of
                                Inl err \<Rightarrow> (POST_failed, d)
                              | Inr True \<Rightarrow>
                                  (error_response ''One or more recipient emails are invalid'' 400, d)
                              | Inr False \<Rightarrow>
                                  if schedule_count d t \<ge> 20 then
                                    (error_response
                                       ''Maximum number of export schedules (20) reached for this tenant''
                                       400, d)
                                  else (case crypto_getRandomUUID of
                                          Inl err \<Rightarrow> (POST_failed, d)
                                        | Inr uuid \<Rightarrow>
                                            (case create_schedule (new_schedule e uuid uid t f) d of
                                               Inl err \<Rightarrow> (POST_failed, d)
                                             | Inr d' \<Rightarrow>
                                                 (\<lparr>status = 200,
                                                   payload = CreatedBody (new_schedule e uuid uid t f)
                                                     ''Export schedule created successfully''\<rparr>,
                                                  d')))))))"

subsection \<open>PATCH\<close>

text \<open>
  Lines 462--469: \<^verbatim>\<open>updateMany({ where: { id: { in: scheduleIds } }, data: { isActive: { not: true } } })\<close>.
  The update payload is one object literal, the same for every row the \<^verbatim>\<open>where\<close> clause
  selects: a literal value, or the object \<^verbatim>\<open>{ not: b }\<close> that the handler writes.
\<close>

datatype bool_update = SetTo bool | NotOf bool

text \<open>
  Modelled from the spec: the ORM client, which gives an update payload its meaning, is
  not among the sources. The spec reads \<^verbatim>\<open>isActive: { not: true }\<close> as setting the field to
  the constant "not true".
\<close>

definition bool_update_value :: "bool_update \<Rightarrow> jsval" where
  "bool_update_value u = (case u of SetTo b \<Rightarrow> JBool b | NotOf b \<Rightarrow> JBool (\<not> b))"

text \<open>\<^verbatim>\<open>where: { id: { in: ids } }\<close>: the clause compares the row's id with the listed values.\<close>

definition id_in :: "jsval list \<Rightarrow> string \<Rightarrow> bool" where
  "id_in ids i = (JStr i \<in> set ids)"

definition updateMany_isActive :: "jsval list \<Rightarrow> bool_update \<Rightarrow> db \<Rightarrow> db" where
  "updateMany_isActive ids u d =
     d\<lparr>exportSchedule_rows :=
         map (\<lambda>s. if id_in ids (es_id s) then s\<lparr>es_isActive := bool_update_value u\<rparr> else s)
             (exportSchedule_rows d)\<rparr>"

text \<open>\<^verbatim>\<open>Array.isArray(v)\<close>, and the elements of an array.\<close>

definition isArray :: "jsval \<Rightarrow> bool" where
  "isArray v = (case v of JArr xs \<Rightarrow> True | _ \<Rightarrow> False)"

definition elements :: "jsval \<Rightarrow> jsval list" where
  "elements v = (case v of JArr xs \<Rightarrow> xs | _ \<Rightarrow> [])"

definition PATCH :: "env \<Rightarrow> request \<Rightarrow> db \<Rightarrow> schedule_response \<times> db" where
  "PATCH e req d =
     (if \<not> rateLimit e (identifier_of req) then (error_response ''Rate limit exceeded'' 429, d)
      else case session_id e of
        None \<Rightarrow> (error_response ''Unauthorized'' 401, d)
      | Some uid \<Rightarrow>
          if \<not> hasPermission e uid ''admin:users:export'' then (error_response ''Forbidden'' 403, d)
          else (case json_body req of
                  None \<Rightarrow> (error_response ''Failed to update export schedules'' 500, d)
                | Some b \<Rightarrow>
                    (case destructure b of
                       Inl err \<Rightarrow> (error_response ''Failed to update export schedules'' 500, d)
                     | Inr f \<Rightarrow>
                         if f ''action'' = JStr ''toggleActive'' \<and> truthy (f ''scheduleIds'') \<and>
                            isArray (f ''scheduleIds'')
                         then (\<lparr>status = 200, payload = MessageBody ''Schedules updated''\<rparr>,
                               updateMany_isActive (elements (f ''scheduleIds'')) (NotOf True) d)
                         else (error_response ''Invalid action'' 400, d))))"

subsection \<open>DELETE\<close>

text \<open>
  Lines 516--527: the executions of the listed schedules are deleted, then the schedules;
  both \<^verbatim>\<open>where\<close> clauses test the id against the list and nothing else.
\<close>

definition deleteMany :: "string list \<Rightarrow> db \<Rightarrow> nat \<times> db" where
  "deleteMany ids d =
     (let d1 = d\<lparr>exportScheduleExecution_rows :=
                   filter (\<lambda>x. ese_scheduleId x \<notin> set ids) (exportScheduleExecution_rows d)\<rparr>;
          count = length (filter (\<lambda>s. es_id s \<in> set ids) (exportSchedule_rows d1));
          d2 = d1\<lparr>exportSchedule_rows := filter (\<lambda>s. es_id s \<notin> set ids) (exportSchedule_rows d1)\<rparr>
      in (count, d2))"

definition DELETE :: "env \<Rightarrow> request \<Rightarrow> db \<Rightarrow> schedule_response \<times> db" where
  "DELETE e req d =
     (if \<not> rateLimit e (identifier_of req) then (error_response ''Rate limit exceeded'' 429, d)
      else case session_id e of
        None \<Rightarrow> (error_response ''Unauthorized'' 401, d)
      | Some uid \<Rightarrow>
          if \<not> hasPermission e uid ''admin:users:export'' then (error_response ''Forbidden'' 403, d)
          else (let ids = (case ids_param req of Some p \<Rightarrow> split_comma p | None \<Rightarrow> [])
                in if length ids = 0 then (error_response ''No schedule IDs provided'' 400, d)
                   else (let (count, d') = deleteMany ids d
                         in (\<lparr>status = 200,
                               payload = DeletedBody count
                                 (string_of_nat count @ '' schedule(s) deleted'')\<rparr>, d'))))"

subsection \<open>The operations of the endpoint\<close>




section \<open>Filter presets\<close>

text \<open>
  The handlers of \<^verbatim>\<open>/api/admin/filter-presets/[id]\<close> (\<^verbatim>\<open>src/unnamed/part_000\<close>). Each is the
  function handed to \<^verbatim>\<open>withTenantContext\<close>; the wrapper itself is not among the sources.
\<close>

record filter_preset =
  fp_id :: string
  fp_name :: jsval
  fp_description :: jsval
  fp_isPublic :: jsval
  fp_icon :: jsval
  fp_color :: jsval
  fp_filterConfig :: string
  fp_filterLogic :: jsval
  fp_createdBy :: string
  fp_tenantId :: string
  fp_updatedAt :: nat

text \<open>The creator of a preset as the queries include it: \<^verbatim>\<open>select: { id, name, image }\<close>.\<close>

record creator =
  cr_id :: string
  cr_name :: jsval
  cr_image :: jsval

record preset_db =
  filter_presets :: "filter_preset list"
  creators :: "creator list"

text \<open>
  What the handlers learn from outside: the result of \<^verbatim>\<open>requireTenantContext()\<close> reduced to
  \<^verbatim>\<open>ctx?.userId\<close> (the call may raise; \<open>None\<close> when there is no context or no user id), the
  built-ins \<^verbatim>\<open>JSON.parse\<close> (which raises on text that is not JSON) and \<^verbatim>\<open>JSON.stringify\<close>,
  and the clock.
\<close>

record preset_env =
  ctx_userId :: "thrown + string option"
  JSON_parse :: "string \<Rightarrow> thrown + jsval"
  JSON_stringify :: "jsval \<Rightarrow> string"
  new_Date :: nat

text \<open>
  The response helpers of \<^verbatim>\<open>respond\<close>, as the handlers call them. \<open>Ok\<close> carries the preset
  with its creator and the parsed filter configuration, or a message.
\<close>

datatype preset_payload =
    PresetPayload filter_preset "creator option" jsval
  | MessagePayload string

datatype preset_response =
    Ok preset_payload
  | Unauthorized
  | NotFound
  | Forbidden
  | Conflict string
  | ServerError string

text \<open>
  Modelled from the spec: the module \<^verbatim>\<open>@/lib/api-response\<close> that defines \<^verbatim>\<open>respond\<close> is not
  among the sources. The spec's taxonomy gives the status of each helper: authentication
  failure 401, authorization failure 403, uniqueness conflict 409, not-found 404,
  unexpected failure 500.
\<close>

fun status_of :: "preset_response \<Rightarrow> nat" where
  "status_of (Ok p) = 200"
| "status_of Unauthorized = 401"
| "status_of NotFound = 404"
| "status_of Forbidden = 403"
| "status_of (Conflict m) = 409"
| "status_of (ServerError m) = 500"

text \<open>\<^verbatim>\<open>prisma.filter_presets.findUnique({ where: { id } })\<close> and the included creator.\<close>

definition findUnique :: "preset_db \<Rightarrow> string \<Rightarrow> filter_preset option" where
  "findUnique d i = find (\<lambda>p. fp_id p = i) (filter_presets d)"

definition creator_of :: "preset_db \<Rightarrow> filter_preset \<Rightarrow> creator option" where
  "creator_of d p = find (\<lambda>c. cr_id c = fp_createdBy p) (creators d)"

text \<open>\<^verbatim>\<open>!ctx?.userId\<close>: the user id, when it is a non-empty string.\<close>

definition ctx_user :: "string option \<Rightarrow> string option" where
  "ctx_user c = (case c of Some u \<Rightarrow> if u \<noteq> [] then Some u else None | None \<Rightarrow> None)"

subsection \<open>GET\<close>

definition preset_GET :: "preset_env \<Rightarrow> string \<Rightarrow> preset_db \<Rightarrow> preset_response \<times> preset_db" where
  "preset_GET e i d =
     (case ctx_userId e of
        Inl err \<Rightarrow> (ServerError ''Failed to fetch preset'', d)
      | Inr c \<Rightarrow>
          (case ctx_user c of
             None \<Rightarrow> (Unauthorized, d)
           | Some userId \<Rightarrow>
               (case findUnique d i of
                  None \<Rightarrow> (NotFound, d)
                | Some preset \<Rightarrow>
                    if \<not> truthy (fp_isPublic preset) \<and> fp_createdBy preset \<noteq> userId
                    then (Forbidden, d)
                    else (case JSON_parse e (fp_filterConfig preset) of
                            Inl err \<Rightarrow> (ServerError ''Failed to fetch preset'', d)
                          | Inr cfg \<Rightarrow>
                              (Ok (PresetPayload preset (creator_of d preset) cfg), d)))))"

subsection \<open>PATCH\<close>

text \<open>
  Lines 85--97: the fields of the body that are not \<^verbatim>\<open>undefined\<close> are copied into the
  update. \<^verbatim>\<open>filterConfig.logic\<close> raises when \<^verbatim>\<open>filterConfig\<close> is \<^verbatim>\<open>null\<close>.
\<close>

definition member_of :: "jsval \<Rightarrow> string \<Rightarrow> thrown + jsval" where
  "member_of v k =
     (case v of
        JObj kvs \<Rightarrow> Inr (get_prop kvs k)
      | JNull \<Rightarrow> Inl (Error ''Cannot read properties of null'')
      | JUndefined \<Rightarrow> Inl (Error ''Cannot read properties of undefined'')
      | _ \<Rightarrow> Inr JUndefined)"

definition if_defined :: "jsval \<Rightarrow> jsval \<Rightarrow> jsval" where
  "if_defined new old = (if new \<noteq> JUndefined then new else old)"

definition updateData :: "preset_env \<Rightarrow> (string \<Rightarrow> jsval) \<Rightarrow> thrown + (filter_preset \<Rightarrow> filter_preset)" where
  "updateData e f =
     (case (if f ''filterConfig'' \<noteq> JUndefined
            then map_sum id (\<lambda>l. Some (JSON_stringify e (f ''filterConfig''), js_or l (JStr ''AND'')))
                   (member_of (f ''filterConfig'') ''logic'')
            else Inr None) of
        Inl err \<Rightarrow> Inl err
      | Inr cfg \<Rightarrow>
          Inr (\<lambda>p. p\<lparr>fp_name := if_defined (f ''name'') (fp_name p),
                      fp_description := if_defined (f ''description'') (fp_description p),
                      fp_isPublic := if_defined (f ''isPublic'') (fp_isPublic p),
                      fp_icon := if_defined (f ''icon'') (fp_icon p),
                      fp_color := if_defined (f ''color'') (fp_color p),
                      fp_filterConfig := (case cfg of Some (c, l) \<Rightarrow> c | None \<Rightarrow> fp_filterConfig p),
                      fp_filterLogic := (case cfg of Some (c, l) \<Rightarrow> l | None \<Rightarrow> fp_filterLogic p),
                      fp_updatedAt := new_Date e\<rparr>))"

text \<open>
  Lines 100--113: another preset of the same creator and tenant already has the new name.
\<close>

definition name_taken :: "preset_db \<Rightarrow> filter_preset \<Rightarrow> string \<Rightarrow> string \<Rightarrow> jsval \<Rightarrow> bool" where
  "name_taken d preset userId i name =
     (truthy name \<and> name \<noteq> fp_name preset \<and>
      find (\<lambda>p. fp_tenantId p = fp_tenantId preset \<and> fp_name p = name \<and>
                 fp_createdBy p = userId \<and> fp_id p \<noteq> i) (filter_presets d) \<noteq> None)"

text \<open>\<^verbatim>\<open>prisma.filter_presets.update({ where: { id }, data })\<close>\<close>

definition update_preset :: "string \<Rightarrow> (filter_preset \<Rightarrow> filter_preset) \<Rightarrow> preset_db \<Rightarrow> preset_db" where
  "update_preset i upd d =
     d\<lparr>filter_presets := map (\<lambda>p. if fp_id p = i then upd p else p) (filter_presets d)\<rparr>"

definition preset_PATCH ::
  "preset_env \<Rightarrow> string \<Rightarrow> jsval option \<Rightarrow> preset_db \<Rightarrow> preset_response \<times> preset_db" where
  "preset_PATCH e i body d =
     (case ctx_userId e of
        Inl err \<Rightarrow> (ServerError ''Failed to update preset'', d)
      | Inr c \<Rightarrow>
          (case ctx_user c of
             None \<Rightarrow> (Unauthorized, d)
           | Some userId \<Rightarrow>
               (case findUnique d i of
                  None \<Rightarrow> (NotFound, d)
                | Some preset \<Rightarrow>
                    if fp_createdBy preset \<noteq> userId then (Forbidden, d)
                    else (case body of
                            None \<Rightarrow> (ServerError ''Failed to update preset'', d)
                          | Some b \<Rightarrow>
                              (case destructure b of
                                 Inl err \<Rightarrow> (ServerError ''Failed to update preset'', d)
                               | Inr f \<Rightarrow>
                                   (case updateData e f of
                                      Inl err \<Rightarrow> (ServerError ''Failed to update preset'', d)
                                    | Inr upd \<Rightarrow>
                                        if name_taken d preset userId i (f ''name'')
                                        then (Conflict ''Another preset with this name already exists'', d)
                                        else (let d' = update_preset i upd d;
                                                  updatedPreset = upd preset
                                              in case JSON_parse e (fp_filterConfig updatedPreset) of
                                                   Inl err \<Rightarrow> (ServerError ''Failed to update preset'', d')
                                                 | Inr cfg \<Rightarrow>
                                                     (Ok (PresetPayload updatedPreset
                                                            (creator_of d' updatedPreset) cfg), d'))))))))"

subsection \<open>DELETE\<close>

text \<open>\<^verbatim>\<open>prisma.filter_presets.delete({ where: { id } })\<close>\<close>

definition delete_preset :: "string \<Rightarrow> preset_db \<Rightarrow> preset_db" where
  "delete_preset i d = d\<lparr>filter_presets := filter (\<lambda>p. fp_id p \<noteq> i) (filter_presets d)\<rparr>"

definition preset_DELETE :: "preset_env \<Rightarrow> string \<Rightarrow> preset_db \<Rightarrow> preset_response \<times> preset_db" where
  "preset_DELETE e i d =
     (case ctx_userId e of
        Inl err \<Rightarrow> (ServerError ''Failed to delete preset'', d)
      | Inr c \<Rightarrow>
          (case ctx_user c of
             None \<Rightarrow> (Unauthorized, d)
           | Some userId \<Rightarrow>
               (case findUnique d i of
                  None \<Rightarrow> (NotFound, d)
                | Some preset \<Rightarrow>
                    if fp_createdBy preset \<noteq> userId then (Forbidden, d)
                    else (Ok (MessagePayload ''Preset deleted successfully''), delete_preset i d))))"

section \<open>Report generation\<close>

text \<open>
  The handler \<^verbatim>\<open>POST /api/admin/reports/[id]/generate\<close> (lines 12--177 of the route file).
\<close>

record report_section =
  sec_columns :: "column list option"
  sec_calculations :: jsval

text \<open>
  A report row of the store. \<open>rp_sections\<close> is \<open>None\<close> when the stored value is \<^verbatim>\<open>null\<close>, in
  which case \<^verbatim>\<open>report.sections[0]\<close> raises a \<^verbatim>\<open>TypeError\<close>.
\<close>

record report = report_head +
  rp_id :: string
  rp_tenantId :: string
  rp_sections :: "report_section list option"
  rp_lastGeneratedAt :: "nat option"
  rp_generationCount :: nat

record report_execution =
  rx_id :: string
  rx_reportId :: string
  rx_status :: string
  rx_executedAt :: nat
  rx_completedAt :: "nat option"
  rx_fileSizeBytes :: "nat option"
  rx_errorMessage :: "string option"

record report_db =
  reports :: "report list"
  reportExecutions :: "report_execution list"
  report_users :: "user list"

text \<open>
  The calls the handler makes to the store, by the line of the source: each of them may
  raise (the store is away, a constraint fails), and the claim about this handler is
  about exceptions, so here each call carries the exception it raises, if any.
\<close>

datatype store_call =
    Report_findUnique
  | ReportExecution_create
  | User_findMany
  | ReportExecution_update_completed
  | Report_update
  | ReportExecution_update_failed

text \<open>
  The collaborators of one request. The helpers imported from \<^verbatim>\<open>report-builder\<close> are not
  among the sources and may raise, as may \<^verbatim>\<open>JSON.stringify\<close>; so they are parameters that
  return a result or the value thrown. \<open>store_raises\<close> tells which store calls raise. The
  clock is read at four places; \<open>Date_now\<close> is \<^verbatim>\<open>Date.now()\<close> and \<open>toLocaleDateString\<close> the
  date text of the tab-separated report.
\<close>

record generate_env =
  g_rateLimit :: "string \<Rightarrow> bool"
  g_hasPermission :: "string \<Rightarrow> string \<Rightarrow> bool"
  store_raises :: "store_call \<Rightarrow> thrown option"
  executedAt :: nat
  completedAt :: nat
  failedAt :: nat
  generatedAt :: nat
  Date_now :: nat
  toLocaleDateString :: string
  applyFilters :: "row list \<Rightarrow> jsval \<Rightarrow> thrown + row list"
  calculateSummaryStats :: "row list \<Rightarrow> jsval \<Rightarrow> thrown + (string \<times> jsval) list option"
  generateReportHTML :: "report \<Rightarrow> report_data \<Rightarrow> thrown + string"
  stringify_reportData :: "report_data \<Rightarrow> thrown + string"

datatype generate_response =
    JsonError nat string
  | File string string string

text \<open>The status of a response; a \<open>File content contentType filename\<close> is sent with 200.\<close>

fun generate_status :: "generate_response \<Rightarrow> nat" where
  "generate_status (JsonError n m) = n"
| "generate_status (File c t f) = 200"

text \<open>Lines 64--80: the users of the report's tenant, with the selected fields.\<close>

definition select_user :: "user \<Rightarrow> row" where
  "select_user u =
     [(''id'', JStr (usr_id u)), (''name'', usr_name u), (''email'', usr_email u),
      (''phone'', usr_phone u), (''role'', usr_role u),
      (''availabilityStatus'', usr_availabilityStatus u), (''department'', usr_department u),
      (''position'', usr_position u), (''createdAt'', usr_createdAt u),
      (''lastLoginAt'', usr_lastLoginAt u)]"

definition tenant_users :: "report_db \<Rightarrow> string \<Rightarrow> row list" where
  "tenant_users d t = map select_user (filter (\<lambda>u. usr_tenantId u = Some t) (report_users d))"


text \<open>
  \<^verbatim>\<open>prisma.reportExecution.update({ where: { id }, data })\<close> and the same on reports: the
  row with the id is changed; the call raises when there is none, or when the store says
  so, and then changes nothing.
\<close>

definition update_execution ::
  "generate_env \<Rightarrow> store_call \<Rightarrow> string \<Rightarrow> (report_execution \<Rightarrow> report_execution) \<Rightarrow> report_db
     \<Rightarrow> thrown + report_db" where
  "update_execution e call i upd d =
     (case store_raises e call of
        Some err \<Rightarrow> Inl err
      | None \<Rightarrow>
          if i \<notin> set (map rx_id (reportExecutions d))
          then Inl (Error ''Record to update not found.'')
          else Inr (d\<lparr>reportExecutions :=
                        map (\<lambda>x. if rx_id x = i then upd x else x) (reportExecutions d)\<rparr>))"

definition update_report ::
  "generate_env \<Rightarrow> string \<Rightarrow> (report \<Rightarrow> report) \<Rightarrow> report_db \<Rightarrow> thrown + report_db" where
  "update_report e i upd d =
     (case store_raises e Report_update of
        Some err \<Rightarrow> Inl err
      | None \<Rightarrow>
          if i \<notin> set (map rp_id (reports d))
          then Inl (Error ''Record to update not found.'')
          else Inr (d\<lparr>reports := map (\<lambda>r. if rp_id r = i then upd r else r) (reports d)\<rparr>))"

text \<open>\<^verbatim>\<open>error instanceof Error ? error.message : 'Unknown error'\<close>\<close>

definition errorMessage :: "thrown \<Rightarrow> string" where
  "errorMessage err = (case err of Error m \<Rightarrow> m | Thrown v \<Rightarrow> ''Unknown error'')"

text \<open>
  Lines 91--96: \<^verbatim>\<open>report.sections[0]?.columns || []\<close> and the summary. Indexing raises
  when there are no sections at all; an empty array of sections gives \<^verbatim>\<open>undefined\<close>.
\<close>

definition first_section :: "report \<Rightarrow> thrown + report_section option" where
  "first_section report =
     (case rp_sections report of
        None \<Rightarrow> Inl (Error ''Cannot read properties of null (reading 0)'')
      | Some [] \<Rightarrow> Inr None
      | Some (s # ss) \<Rightarrow> Inr (Some s))"

definition build_reportData :: "generate_env \<Rightarrow> report \<Rightarrow> row list \<Rightarrow> thrown + report_data" where
  "build_reportData e report data =
     (case first_section report of
        Inl err \<Rightarrow> Inl err
      | Inr s \<Rightarrow>
          (let columns = (case s of
                            Some sec \<Rightarrow> (case sec_columns sec of Some cs \<Rightarrow> cs | None \<Rightarrow> [])
                          | None \<Rightarrow> []);
               calculations = (case s of
                                 Some sec \<Rightarrow> js_or (sec_calculations sec) (JArr [])
                               | None \<Rightarrow> JArr [])
           in case calculateSummaryStats e data calculations of
                Inl err \<Rightarrow> Inl err
              | Inr summary \<Rightarrow>
                  Inr \<lparr>rd_columns = Some columns, rd_rows = Some data,
                       rd_rowCount = length data, rd_summary = summary\<rparr>))"

text \<open>
  Lines 98--127: the content, its type and the file name for each format. \<open>format\<close> is one
  of the four supported texts when this is reached.
\<close>

definition generate_content ::
  "generate_env \<Rightarrow> report \<Rightarrow> report_data \<Rightarrow> string \<Rightarrow> thrown + (string \<times> string \<times> string)" where
  "generate_content e report reportData format =
     (let filename = spaces_to_hyphen (r_name report) @ ''-'' @ string_of_nat (Date_now e)
      in if format = ''pdf'' then
           (case generateReportHTML e report reportData of
              Inl err \<Rightarrow> Inl err
            | Inr html \<Rightarrow> Inr (html, ''text/html'', filename @ ''.html''))
         else if format = ''xlsx'' then
           Inr (generateExcelReport (toLocaleDateString e) report reportData,
                ''text/tab-separated-values'', filename @ ''.xlsx'')
         else if format = ''csv'' then
           Inr (generateCSVReport reportData, ''text/csv'', filename @ ''.csv'')
         else if format = ''json'' then
           (case stringify_reportData e reportData of
              Inl err \<Rightarrow> Inl err
            | Inr text \<Rightarrow> Inr (text, ''application/json'', filename @ ''.json''))
         else Inr ([], ''text/html'', filename))"

text \<open>
  Lines 62--155, the body of the inner \<^verbatim>\<open>try\<close>. Its outcome is the file response or the
  exception raised, together with the store at that moment: an exception raised after the
  first update leaves the execution completed.
\<close>

definition generate_inner ::
  "generate_env \<Rightarrow> report \<Rightarrow> string \<Rightarrow> jsval \<Rightarrow> string \<Rightarrow> report_db
     \<Rightarrow> (thrown + generate_response) \<times> report_db" where
  "generate_inner e report format filters execution_id d =
     (case store_raises e User_findMany of
        Some err \<Rightarrow> (Inl err, d)
      | None \<Rightarrow>
          (let users = tenant_users d (rp_tenantId report)
           in case (if truthy filters then applyFilters e users filters else Inr users) of
                Inl err \<Rightarrow> (Inl err, d)
              | Inr data \<Rightarrow>
                  (case build_reportData e report data of
                     Inl err \<Rightarrow> (Inl err, d)
                   | Inr reportData \<Rightarrow>
                       (case generate_content e report reportData format of
                          Inl err \<Rightarrow> (Inl err, d)
                        | Inr (generatedContent, contentType, filename) \<Rightarrow>
                            (case update_execution e ReportExecution_update_completed execution_id
                                    (\<lambda>x. x\<lparr>rx_status := ''completed'',
                                            rx_fileSizeBytes := Some (length generatedContent),
                                            rx_completedAt := Some (completedAt e)\<rparr>) d of
                               Inl err \<Rightarrow> (Inl err, d)
                             | Inr d1 \<Rightarrow>
                                 (case update_report e (rp_id report)
                                         (\<lambda>r. r\<lparr>rp_lastGeneratedAt := Some (generatedAt e),
                                                 rp_generationCount := rp_generationCount r + 1\<rparr>)
                                         d1 of
                                    Inl err \<Rightarrow> (Inl err, d1)
                                  | Inr d2 \<Rightarrow>
                                      (Inr (File generatedContent contentType filename), d2)))))))"

text \<open>
  Lines 156--168, the inner \<^verbatim>\<open>catch\<close>: the execution is marked failed and the exception
  is raised again. When the update itself raises, that exception leaves the block
  instead and the execution is not marked.
\<close>

definition record_failure ::
  "generate_env \<Rightarrow> string \<Rightarrow> thrown \<Rightarrow> report_db \<Rightarrow> thrown + report_db" where
  "record_failure e execution_id err d =
     update_execution e ReportExecution_update_failed execution_id
       (\<lambda>x. x\<lparr>rx_status := ''failed'',
               rx_errorMessage := Some (errorMessage err),
               rx_completedAt := Some (failedAt e)\<rparr>) d"

text \<open>
  Lines 62--168, the inner \<^verbatim>\<open>try\<close> with its \<^verbatim>\<open>catch\<close>: the outcome is the response, or the
  exception that leaves the statement, together with the store at that moment.
\<close>

definition try_generate ::
  "generate_env \<Rightarrow> report \<Rightarrow> string \<Rightarrow> jsval \<Rightarrow> string \<Rightarrow> report_db
     \<Rightarrow> (thrown + generate_response) \<times> report_db" where
  "try_generate e report format filters execution_id d =
     (case generate_inner e report format filters execution_id d of
        (Inr response, d') \<Rightarrow> (Inr response, d')
      | (Inl error, d') \<Rightarrow>
          (case record_failure e execution_id error d' of
             Inl error' \<Rightarrow> (Inl error', d')
           | Inr d'' \<Rightarrow> (Inl error, d'')))"





section \<open>Filter state of the user directory\<close>

text \<open>
  Modelled from the spec: the hook \<^verbatim>\<open>useFilterState\<close> is not among the sources (the
  status document under \<^verbatim>\<open>docs/\<close> only describes it). The spec says: given a filter
  specification (free-text query, optional role, optional status) and a collection of user
  records, produce the subset matching all active predicates (logical AND) and a count
  triple (total, filtered, whether any filter is active); matching is case-insensitive
  substring search across a fixed field list. The status document names the fields
  searched: name, email, phone, company, and sketches the computation as successive
  narrowing of \<^verbatim>\<open>result = users\<close>.
\<close>

record user_item =
  u_name :: string
  u_email :: string
  u_phone :: string
  u_company :: string
  u_role :: string
  u_status :: string

record filter_state =
  search :: string
  f_role :: "string option"
  f_status :: "string option"

record filter_stats =
  totalCount :: nat
  filteredCount :: nat
  isFiltered :: bool

definition search_fields :: "(user_item \<Rightarrow> string) list" where
  "search_fields = [u_name, u_email, u_phone, u_company]"

definition matches_search :: "string \<Rightarrow> user_item \<Rightarrow> bool" where
  "matches_search q u = list_ex (\<lambda>f. str_includes (to_lower (f u)) (to_lower q)) search_fields"

definition filteredUsers :: "filter_state \<Rightarrow> user_item list \<Rightarrow> user_item list" where
  "filteredUsers fs users =
     (let r0 = users;
          r1 = (if search fs \<noteq> [] then filter (matches_search (search fs)) r0 else r0);
          r2 = (case f_role fs of None \<Rightarrow> r1 | Some r \<Rightarrow> filter (\<lambda>u. u_role u = r) r1);
          r3 = (case f_status fs of None \<Rightarrow> r2 | Some s \<Rightarrow> filter (\<lambda>u. u_status u = s) r2)
      in r3)"

definition stats :: "filter_state \<Rightarrow> user_item list \<Rightarrow> filter_stats" where
  "stats fs users =
     \<lparr> totalCount = length users,
       filteredCount = length (filteredUsers fs users),
       isFiltered = (search fs \<noteq> [] \<or> f_role fs \<noteq> None \<or> f_status fs \<noteq> None) \<rparr>"

text \<open>
  The reading of the spec sentence that the computation is compared with: a record
  satisfies a filter specification when every active predicate holds of it.
\<close>

definition ci_substring :: "string \<Rightarrow> string \<Rightarrow> bool" where
  "ci_substring q s = (\<exists>pre suf. to_lower s = pre @ to_lower q @ suf)"

definition satisfies_all :: "filter_state \<Rightarrow> user_item \<Rightarrow> bool" where
  "satisfies_all fs u =
     ((search fs \<noteq> [] \<longrightarrow>
         ci_substring (search fs) (u_name u) \<or> ci_substring (search fs) (u_email u) \<or>
         ci_substring (search fs) (u_phone u) \<or> ci_substring (search fs) (u_company u)) \<and>
      (\<forall>r. f_role fs = Some r \<longrightarrow> u_role u = r) \<and>
      (\<forall>s. f_status fs = Some s \<longrightarrow> u_status u = s))"

section \<open>Saved views: the count badge\<close>

text \<open>
  Modelled from the spec: the component \<^verbatim>\<open>SavedViewsButtons\<close> is not among the sources
  (only its tests are, in \<^verbatim>\<open>src/unnamed/part_001\<close>). The spec says: view-count display
  must clamp any value greater than 99 to the literal string \<^verbatim>\<open>"99+"\<close>; smaller counts are
  shown as the number itself.
\<close>

definition view_count_display :: "nat \<Rightarrow> string" where
  "view_count_display c = (if c > 99 then ''99+'' else string_of_nat c)"

section \<open>Example data\<close>

text \<open>Concrete collaborators, rows and bodies at which the properties are instantiated.\<close>

definition ex_env :: "string option \<Rightarrow> env" where
  "ex_env uid =
     \<lparr>rateLimit = (\<lambda>i. True), session_user_id = uid,
      hasPermission = (\<lambda>u p. p = ''admin:users:export''),
      now = 1000\<rparr>"

definition ex_user :: "string \<Rightarrow> string \<Rightarrow> user" where
  "ex_user uid t =
     \<lparr>usr_id = uid, usr_tenantId = Some t, usr_name = JStr uid, usr_email = JNull,
      usr_phone = JNull, usr_role = JStr ''ADMIN'', usr_availabilityStatus = JNull,
      usr_department = JNull, usr_position = JNull, usr_createdAt = JDate ''2025-01-01'',
      usr_lastLoginAt = JNull\<rparr>"

definition ex_schedule :: "string \<Rightarrow> string \<Rightarrow> bool \<Rightarrow> export_schedule" where
  "ex_schedule i t a =
     \<lparr>es_id = i, es_name = JStr ''Weekly'', es_description = JUndefined,
      es_frequency = JStr ''weekly'', es_format = JStr ''csv'',
      es_recipients = JArr [JStr ''ops@example.com''], es_dayOfWeek = JNull,
      es_dayOfMonth = JNull, es_time = JStr ''09:00'', es_emailSubject = JUndefined,
      es_emailBody = JUndefined, es_filterPresetId = JNull, es_isActive = JBool a,
      es_tenantId = t, es_userId = ''u1'', es_createdAt = 0, es_updatedAt = 0\<rparr>"

definition ex_request :: "jsval option \<Rightarrow> string option \<Rightarrow> request" where
  "ex_request b p = \<lparr>x_forwarded_for = Some ''10.0.0.1'', json_body = b, ids_param = p\<rparr>"


definition ex_body_no_name :: jsval where
  "ex_body_no_name =
     JObj [(''frequency'', JStr ''weekly''), (''format'', JStr ''csv''),
           (''recipients'', JArr [JStr ''ops@example.com''])]"

text \<open>
  A store in which user \<open>u1\<close> belongs to tenant \<open>t1\<close>, which holds one active and one
  inactive schedule, and tenant \<open>t2\<close> holds one schedule with one execution.
\<close>

definition ex_db :: db where
  "ex_db =
     \<lparr>user_rows = [ex_user ''u1'' ''t1'', ex_user ''u2'' ''t2''],
      exportSchedule_rows =
        [ex_schedule ''a'' ''t1'' True, ex_schedule ''b'' ''t1'' False, ex_schedule ''c'' ''t2'' True],
      exportScheduleExecution_rows = [\<lparr>ese_id = ''x1'', ese_scheduleId = ''c''\<rparr>]\<rparr>"

text \<open>A store in which tenant \<open>t1\<close> holds twenty schedules.\<close>

definition ex_db_full :: db where
  "ex_db_full =
     \<lparr>user_rows = [ex_user ''u1'' ''t1''],
      exportSchedule_rows = map (\<lambda>i. ex_schedule (string_of_nat i) ''t1'' True) [0 ..< 20],
      exportScheduleExecution_rows = []\<rparr>"

text \<open>
  A preset store: \<open>p1\<close> is private and owned by \<open>u2\<close>; \<open>p2\<close> is public and owned by \<open>u2\<close>.
\<close>

definition ex_preset :: "string \<Rightarrow> bool \<Rightarrow> string \<Rightarrow> filter_preset" where
  "ex_preset i pub owner =
     \<lparr>fp_id = i, fp_name = JStr ''Active clients'', fp_description = JNull,
      fp_isPublic = JBool pub, fp_icon = JNull, fp_color = JNull,
      fp_filterConfig = ''{}'', fp_filterLogic = JStr ''AND'', fp_createdBy = owner,
      fp_tenantId = ''t1'', fp_updatedAt = 0\<rparr>"

definition ex_preset_db :: preset_db where
  "ex_preset_db =
     \<lparr>filter_presets = [ex_preset ''p1'' False ''u2'', ex_preset ''p2'' True ''u2''],
      creators = [\<lparr>cr_id = ''u2'', cr_name = JStr ''Una'', cr_image = JNull\<rparr>]\<rparr>"

definition ex_preset_env :: "string \<Rightarrow> preset_env" where
  "ex_preset_env u =
     \<lparr>ctx_userId = Inr (Some u), JSON_parse = (\<lambda>s. Inr (JObj [])),
      JSON_stringify = (\<lambda>v. ''{}''), new_Date = 1000\<rparr>"

text \<open>
  A report store with one report and no execution yet, and collaborators of which the
  summary helper raises \<open>summary_result\<close> when that is an exception.
\<close>

definition ex_report :: report where
  "ex_report =
     \<lparr>r_name = ''Staff list'', r_description = None, rp_id = ''r1'', rp_tenantId = ''t1'',
      rp_sections = Some [\<lparr>sec_columns = Some [\<lparr>c_name = ''name'', c_label = ''Name''\<rparr>],
                           sec_calculations = JUndefined\<rparr>],
      rp_lastGeneratedAt = None, rp_generationCount = 0\<rparr>"

definition ex_report_db :: report_db where
  "ex_report_db =
     \<lparr>reports = [ex_report], reportExecutions = [], report_users = [ex_user ''u1'' ''t1'']\<rparr>"

text \<open>The same store with an execution of the report under way.\<close>

definition ex_report_db_running :: report_db where
  "ex_report_db_running =
     ex_report_db\<lparr>reportExecutions :=
       [\<lparr>rx_id = ''x1'', rx_reportId = ''r1'', rx_status = ''generating'', rx_executedAt = 10,
         rx_completedAt = None, rx_fileSizeBytes = None, rx_errorMessage = None\<rparr>]\<rparr>"

definition ex_generate_env :: "(thrown + (string \<times> jsval) list option) \<Rightarrow> generate_env" where
  "ex_generate_env summary_result =
     \<lparr>g_rateLimit = (\<lambda>i. True), g_hasPermission = (\<lambda>u p. p = ''admin:reports:generate''),
      store_raises = (\<lambda>c. None), executedAt = 10, completedAt = 20, failedAt = 30,
      generatedAt = 40, Date_now = 50, toLocaleDateString = ''1/1/2025'',
      applyFilters = (\<lambda>rows filters. Inr rows),
      calculateSummaryStats = (\<lambda>rows calculations. summary_result),
      generateReportHTML = (\<lambda>r rd. Inr ''<html></html>''),
      stringify_reportData = (\<lambda>rd. Inr ''{}'')\<rparr>"

text \<open>
  The user directory of the component tests: 150 users, of which 50 are clients, 75 team
  members and 25 administrators.
\<close>

definition ex_user_item :: "string \<Rightarrow> user_item" where
  "ex_user_item r =
     \<lparr>u_name = ''Sam'', u_email = ''sam@example.com'', u_phone = ''555'', u_company = ''Acme'',
      u_role = r, u_status = ''ACTIVE''\<rparr>"

definition ex_directory :: "user_item list" where
  "ex_directory =
     replicate 50 (ex_user_item ''CLIENT'') @ replicate 75 (ex_user_item ''TEAM'') @
     replicate 25 (ex_user_item ''ADMIN'')"

section \<open>Properties\<close>

lemma string_of_nat_digit: "n < 10 \<Longrightarrow> string_of_nat n = [digit_char n]"
  by (simp add: string_of_nat.simps)

lemma string_of_nat_step:
  "\<not> n < 10 \<Longrightarrow> string_of_nat n = string_of_nat (n div 10) @ [digit_char (n mod 10)]"
  by (subst string_of_nat.simps) simp

text \<open>Prefixes and occurrences, as list equations.\<close>

lemma starts_with_iff: "starts_with p s = (\<exists>suf. s = p @ suf)"
  by (induction p s rule: starts_with.induct) auto

lemma includes_iff: "str_includes s needle = (\<exists>pre suf. s = pre @ needle @ suf)"
proof (induction s)
  case Nil
  then show ?case by auto
next
  case (Cons c cs)
  show ?case
  proof
    assume "str_includes (c # cs) needle"
    then consider "starts_with needle (c # cs)" | "str_includes cs needle" by auto
    then show "\<exists>pre suf. c # cs = pre @ needle @ suf"
    proof cases
      case 1
      then obtain suf where "c # cs = needle @ suf" by (auto simp: starts_with_iff)
      then have "c # cs = [] @ needle @ suf" by simp
      then show ?thesis by blast
    next
      case 2
      then obtain pre suf where "cs = pre @ needle @ suf" using Cons.IH by auto
      then have "c # cs = (c # pre) @ needle @ suf" by simp
      then show ?thesis by blast
    qed
  next
    assume "\<exists>pre suf. c # cs = pre @ needle @ suf"
    then obtain pre suf where e: "c # cs = pre @ needle @ suf" by auto
    show "str_includes (c # cs) needle"
    proof (cases pre)
      case Nil
      then have "starts_with needle (c # cs)" using e by (auto simp: starts_with_iff)
      then show ?thesis by simp
    next
      case (Cons a pre')
      then have "cs = pre' @ needle @ suf" using e by simp
      then have "str_includes cs needle" using Cons.IH by blast
      then show ?thesis by simp
    qed
  qed
qed

text \<open>Reading a property of an object given by its list of properties.\<close>

lemma get_prop_Cons: "get_prop ((k', v) # obj) k = (if k = k' then v else get_prop obj k)"
  by (simp add: get_prop_def)

lemma get_prop_Nil:
  "get_prop [] k = (case map_of Object_prototype k of Some v \<Rightarrow> v | None \<Rightarrow> JUndefined)"
  by (simp add: get_prop_def)

subsection \<open>Report formatting\<close>











text \<open>
  Reading back. A data line of the CSV generator, read under the standard quoting rules,
  gives back exactly the texts of its cells, whatever characters they contain; so does
  the header line when no label contains a double quote.
\<close>

lemma double_quotes_Cons:
  "double_quotes (c # s) = (if c = DQ then [DQ, DQ] else [c]) @ double_quotes s"
  by (simp add: double_quotes_def)

lemma double_quotes_Nil: "double_quotes [] = []"
  by (simp add: double_quotes_def)

lemma join_Cons: "ys \<noteq> [] \<Longrightarrow> join sep (x # ys) = x @ sep @ join sep ys"
  by (cases ys) auto

lemma read_quoted_double_quotes:
  "(rest = [] \<or> hd rest \<noteq> DQ) \<Longrightarrow> read_quoted (double_quotes s @ DQ # rest) = Some (s, rest)"
proof (induction s)
  case Nil
  then show ?case by (cases rest) (auto simp: double_quotes_Nil)
next
  case (Cons c s)
  obtain d ds where e: "double_quotes s @ DQ # rest = d # ds"
    by (cases "double_quotes s @ DQ # rest") auto
  have ih: "read_quoted (d # ds) = Some (s, rest)"
    using Cons e by simp
  show ?case
  proof (cases "c = DQ")
    case True
    have "read_quoted (double_quotes (c # s) @ DQ # rest) = read_quoted (DQ # DQ # d # ds)"
      using True e by (simp add: double_quotes_Cons)
    also have "\<dots> = Some (DQ # s, rest)" using ih by simp
    finally show ?thesis using True by simp
  next
    case False
    have "read_quoted (double_quotes (c # s) @ DQ # rest) = read_quoted (c # d # ds)"
      using False e by (simp add: double_quotes_Cons)
    also have "\<dots> = Some (c # s, rest)" using ih False by simp
    finally show ?thesis .
  qed
qed

lemma csv_cell_text: "csv_cell row c = DQ # double_quotes (cell_text row c) @ [DQ]"
  by (simp add: csv_cell_def cell_text_def)

lemma read_record_one:
  assumes "read_quoted cs = Some (v, e # es)"
  shows "read_record (Suc n) (DQ # cs) =
           (if e = NL then Some ([v], es)
            else if e = CHR '','' then map_option (\<lambda>(vs, r'). (v # vs, r')) (read_record n es)
            else None)"
  using assms by simp

lemma read_record_quoted:
  "xs \<noteq> [] \<Longrightarrow> length xs \<le> n \<Longrightarrow>
   read_record n (join '','' (map (\<lambda>x. DQ # double_quotes (txt x) @ [DQ]) xs) @ NL # rest)
     = Some (map txt xs, rest)"
proof (induction xs arbitrary: n)
  case Nil
  then show ?case by simp
next
  case (Cons x xs)
  then obtain m where n: "n = Suc m" by (cases n) auto
  let ?q = "\<lambda>x. DQ # double_quotes (txt x) @ [DQ]"
  show ?case
  proof (cases "xs = []")
    case True
    have q: "read_quoted (double_quotes (txt x) @ DQ # NL # rest) = Some (txt x, NL # rest)"
      by (rule read_quoted_double_quotes) simp
    have "join '','' (map ?q (x # xs)) @ NL # rest = DQ # (double_quotes (txt x) @ DQ # NL # rest)"
      using True by simp
    then show ?thesis
      using read_record_one [OF q, of m] True by (simp add: n)
  next
    case False
    let ?tl = "join '','' (map ?q xs) @ NL # rest"
    have ih: "read_record m ?tl = Some (map txt xs, rest)"
      using Cons.IH [of m] Cons.prems n False by simp
    have q: "read_quoted (double_quotes (txt x) @ DQ # CHR '','' # ?tl)
             = Some (txt x, CHR '','' # ?tl)"
      by (rule read_quoted_double_quotes) simp
    have "join '','' (map ?q (x # xs)) @ NL # rest
          = DQ # (double_quotes (txt x) @ DQ # CHR '','' # ?tl)"
      using False by (simp add: join_Cons)
    then show ?thesis
      using read_record_one [OF q, of m] ih by (simp add: n)
  qed
qed

lemma csv_row_reads_back:
  assumes "cols \<noteq> []"
  shows "read_record (length cols) (csv_row cols row @ rest) = Some (map (cell_text row) cols, rest)"
proof -
  have "csv_cell row = (\<lambda>c. DQ # double_quotes (cell_text row c) @ [DQ])"
    by (rule ext) (rule csv_cell_text)
  then have e: "csv_row cols row @ rest
      = join '','' (map (\<lambda>c. DQ # double_quotes (cell_text row c) @ [DQ]) cols) @ NL # rest"
    by (simp add: csv_row_def)
  have "read_record (length cols)
          (join '','' (map (\<lambda>c. DQ # double_quotes (cell_text row c) @ [DQ]) cols) @ NL # rest)
        = Some (map (cell_text row) cols, rest)"
    using assms by (intro read_record_quoted) simp_all
  then show ?thesis by (simp only: e)
qed

lemma double_quotes_none: "DQ \<notin> set s \<Longrightarrow> double_quotes s = s"
  by (induction s) (auto simp: double_quotes_Cons double_quotes_Nil)

lemma csv_header_reads_back:
  assumes "cols \<noteq> []" and "\<And>c. c \<in> set cols \<Longrightarrow> DQ \<notin> set (c_label c)"
  shows "read_record (length cols) (csv_header cols @ rest) = Some (map c_label cols, rest)"
proof -
  have "map (\<lambda>c. [DQ] @ c_label c @ [DQ]) cols = map (\<lambda>c. DQ # double_quotes (c_label c) @ [DQ]) cols"
    by (rule map_cong) (simp_all add: double_quotes_none assms(2))
  then have e: "csv_header cols @ rest
      = join '','' (map (\<lambda>c. DQ # double_quotes (c_label c) @ [DQ]) cols) @ NL # rest"
    by (simp only: csv_header_def append_assoc append_Cons append_Nil)
  have "read_record (length cols)
          (join '','' (map (\<lambda>c. DQ # double_quotes (c_label c) @ [DQ]) cols) @ NL # rest)
        = Some (map c_label cols, rest)"
    using assms(1) by (intro read_record_quoted) simp_all
  then show ?thesis by (simp only: e)
qed

text \<open>
  C4. Every field the CSV generator emits is wrapped in double quotes, header labels
  included, and a double quote inside a value is doubled, so that the output reads back
  under the standard quoting rules. Data cells are handled so (\<open>csv_row_reads_back\<close>);
  the header line is not: a label is wrapped but a double quote inside it is written as
  it is. For a column labelled \<^verbatim>\<open>12" screen\<close> the header line is \<^verbatim>\<open>"12" screen"\<close>, which is
  not a well-formed record, while the same text as a data value is written
  \<^verbatim>\<open>"12"" screen"\<close> and reads back.
\<close>

theorem csv_header_label_not_escaped:
  "generateCSVReport
     \<lparr>rd_columns = Some [\<lparr>c_name = ''size'', c_label = ''12'' @ [DQ] @ '' screen''\<rparr>],
      rd_rows = Some [[(''size'', JStr (''12'' @ [DQ] @ '' screen''))]],
      rd_rowCount = 1, rd_summary = None\<rparr>
   = [DQ] @ ''12'' @ [DQ] @ '' screen'' @ [DQ, NL] @
     [DQ] @ ''12'' @ [DQ, DQ] @ '' screen'' @ [DQ, NL] \<and>
   read_record 1 ([DQ] @ ''12'' @ [DQ] @ '' screen'' @ [DQ, NL]) = None \<and>
   read_record 1 ([DQ] @ ''12'' @ [DQ, DQ] @ '' screen'' @ [DQ, NL])
     = Some ([''12'' @ [DQ] @ '' screen''], [])"
  by (simp add: generateCSVReport_def csv_header_def csv_row_def csv_cell_def js_or_def
      get_prop_Cons get_prop_Nil Object_prototype_def double_quotes_def)

subsection \<open>Export schedules\<close>

text \<open>
  White space in a text: some encoding of a white-space character occurs in it. A character
  that occurs in no such encoding separates the white space on its two sides.
\<close>

lemma space_encodings_facts:
  assumes "enc \<in> set space_encodings"
  shows "enc \<noteq> []" and "CHR ''@'' \<notin> set enc" and "CHR ''.'' \<notin> set enc"
  using assms by (auto simp: space_encodings_def)

lemma space_at_iff: "space_at s > 0 \<longleftrightarrow> (\<exists>enc \<in> set space_encodings. \<exists>suf. s = enc @ suf)"
proof
  assume "space_at s > 0"
  then obtain enc where "find (\<lambda>enc. starts_with enc s) space_encodings = Some enc"
    by (auto simp: space_at_def split: option.splits)
  then have "enc \<in> set space_encodings" "starts_with enc s"
    by (auto simp: find_Some_iff)
  then show "\<exists>enc \<in> set space_encodings. \<exists>suf. s = enc @ suf"
    by (auto simp: starts_with_iff)
next
  assume "\<exists>enc \<in> set space_encodings. \<exists>suf. s = enc @ suf"
  then obtain enc where e: "enc \<in> set space_encodings" "starts_with enc s"
    by (auto simp: starts_with_iff)
  then obtain enc' where f: "find (\<lambda>enc. starts_with enc s) space_encodings = Some enc'"
    by (cases "find (\<lambda>enc. starts_with enc s) space_encodings") (auto simp: find_None_iff)
  then have "enc' \<in> set space_encodings" by (auto simp: find_Some_iff)
  then have "enc' \<noteq> []" by (rule space_encodings_facts)
  then show "space_at s > 0" using f by (simp add: space_at_def)
qed

lemma has_space_iff:
  "has_space s \<longleftrightarrow> (\<exists>enc \<in> set space_encodings. \<exists>pre suf. s = pre @ enc @ suf)"
proof (induction s)
  case Nil
  show ?case using space_encodings_facts(1) by auto
next
  case (Cons c cs)
  show ?case
  proof
    assume "has_space (c # cs)"
    then consider "space_at (c # cs) > 0" | "has_space cs" by auto
    then show "\<exists>enc \<in> set space_encodings. \<exists>pre suf. c # cs = pre @ enc @ suf"
    proof cases
      case 1
      then obtain enc suf where "enc \<in> set space_encodings" "c # cs = [] @ enc @ suf"
        by (auto simp: space_at_iff)
      then show ?thesis by blast
    next
      case 2
      then obtain enc pre suf where "enc \<in> set space_encodings" "cs = pre @ enc @ suf"
        using Cons.IH by auto
      then have "c # cs = (c # pre) @ enc @ suf" by simp
      then show ?thesis using \<open>enc \<in> set space_encodings\<close> by blast
    qed
  next
    assume "\<exists>enc \<in> set space_encodings. \<exists>pre suf. c # cs = pre @ enc @ suf"
    then obtain enc pre suf where e: "enc \<in> set space_encodings" "c # cs = pre @ enc @ suf"
      by auto
    show "has_space (c # cs)"
    proof (cases pre)
      case Nil
      then have "space_at (c # cs) > 0" using e by (auto simp: space_at_iff)
      then show ?thesis by simp
    next
      case (Cons p pre')
      then have "cs = pre' @ enc @ suf" using e by simp
      then have "has_space cs" using Cons.IH e(1) by blast
      then show ?thesis by simp
    qed
  qed
qed

lemma has_space_append: "has_space x \<or> has_space y \<Longrightarrow> has_space (x @ y)"
proof (erule disjE)
  assume "has_space x"
  then obtain enc pre suf where "enc \<in> set space_encodings" "x = pre @ enc @ suf"
    by (auto simp: has_space_iff)
  then have "enc \<in> set space_encodings" "x @ y = pre @ enc @ (suf @ y)" by simp_all
  then show ?thesis unfolding has_space_iff by blast
next
  assume "has_space y"
  then obtain enc pre suf where "enc \<in> set space_encodings" "y = pre @ enc @ suf"
    by (auto simp: has_space_iff)
  then have "enc \<in> set space_encodings" "x @ y = (x @ pre) @ enc @ suf" by simp_all
  then show ?thesis unfolding has_space_iff by blast
qed

lemma has_space_separated:
  assumes "has_space (x @ sep # y)" and "\<And>enc. enc \<in> set space_encodings \<Longrightarrow> sep \<notin> set enc"
  shows "has_space x \<or> has_space y"
proof -
  from assms(1) obtain enc pre suf where
    enc: "enc \<in> set space_encodings" and eq: "x @ sep # y = pre @ enc @ suf"
    by (auto simp: has_space_iff)
  have ne: "enc \<noteq> []" and ns: "sep \<notin> set enc"
    using enc assms(2) space_encodings_facts(1) by auto
  from eq obtain us where
    "(x = pre @ us \<and> us @ sep # y = enc @ suf) \<or> (x @ us = pre \<and> sep # y = us @ enc @ suf)"
    by (auto simp: append_eq_append_conv2)
  then show ?thesis
  proof
    assume a: "x = pre @ us \<and> us @ sep # y = enc @ suf"
    then obtain vs where
      "(us = enc @ vs \<and> vs @ sep # y = suf) \<or> (us @ vs = enc \<and> sep # y = vs @ suf)"
      by (auto simp: append_eq_append_conv2)
    then show ?thesis
    proof
      assume "us = enc @ vs \<and> vs @ sep # y = suf"
      then have "x = pre @ enc @ vs" using a by simp
      then have "has_space x" using enc unfolding has_space_iff by blast
      then show ?thesis by simp
    next
      assume b: "us @ vs = enc \<and> sep # y = vs @ suf"
      show ?thesis
      proof (cases vs)
        case Nil
        then have "x = pre @ enc @ []" using a b by simp
        then have "has_space x" using enc unfolding has_space_iff by blast
        then show ?thesis by simp
      next
        case (Cons v vs')
        then have "v = sep" using b by simp
        then have "sep \<in> set enc" using b Cons by auto
        then show ?thesis using ns by simp
      qed
    qed
  next
    assume a: "x @ us = pre \<and> sep # y = us @ enc @ suf"
    show ?thesis
    proof (cases us)
      case Nil
      then have "sep # y = enc @ suf" using a by simp
      then have "sep \<in> set enc" using ne by (cases enc) auto
      then show ?thesis using ns by simp
    next
      case (Cons u us')
      then have "y = us' @ enc @ suf" using a by simp
      then have "has_space y" using enc unfolding has_space_iff by blast
      then show ?thesis by simp
    qed
  qed
qed

text \<open>
  The executable recipient check accepts exactly the texts of the pattern
  \<^verbatim>\<open>/^[^\s@]+@[^\s@]+\.[^\s@]+$/\<close>; a no-break space in the address is white space too.
\<close>

lemma emailRegex_test_sound:
  assumes "emailRegex_test s"
  shows "matches_email_pattern s"
proof -
  define a where "a = takeWhile (\<lambda>c. c \<noteq> CHR ''@'') s"
  define r where "r = dropWhile (\<lambda>c. c \<noteq> CHR ''@'') s"
  have t: "a \<noteq> [] \<and> \<not> has_space a \<and>
           (case r of [] \<Rightarrow> False
            | _ # d \<Rightarrow> \<not> has_space d \<and> CHR ''@'' \<notin> set d \<and>
                       list_ex (\<lambda>i. d ! i = CHR ''.'') [1 ..< length d - 1])"
    using assms unfolding emailRegex_test_def Let_def a_def r_def .
  then obtain x d where r: "r = x # d"
    and d: "\<not> has_space d" "CHR ''@'' \<notin> set d"
    and ex: "list_ex (\<lambda>i. d ! i = CHR ''.'') [1 ..< length d - 1]"
    by (cases r) auto
  have sa: "s = a @ r" by (simp add: a_def r_def)
  have na: "CHR ''@'' \<notin> set a"
    unfolding a_def by (auto dest: set_takeWhileD)
  have "\<not> (hd r \<noteq> CHR ''@'')"
    unfolding r_def by (rule hd_dropWhile) (use r in \<open>simp add: r_def\<close>)
  then have x: "x = CHR ''@''" using r by simp
  obtain i where i: "1 \<le> i" "i < length d - 1" "d ! i = CHR ''.''"
    using ex by (auto simp: list_ex_iff)
  define b where "b = take i d"
  define c where "c = drop (Suc i) d"
  have dsplit: "d = b @ CHR ''.'' # c"
    unfolding b_def c_def using i id_take_nth_drop [of i d] by simp
  have s: "s = a @ ''@'' @ b @ ''.'' @ c"
    using sa r x dsplit by simp
  have pa: "plain_run a"
    unfolding plain_run_def using t na by simp
  have "b \<noteq> []" unfolding b_def using i by auto
  moreover have "\<not> has_space b"
    using d(1) has_space_append [of b "CHR ''.'' # c"] dsplit by auto
  moreover have "CHR ''@'' \<notin> set b" using d(2) dsplit by auto
  ultimately have pb: "plain_run b" by (simp add: plain_run_def)
  have "c \<noteq> []" unfolding c_def using i by auto
  moreover have "\<not> has_space c"
    using d(1) has_space_append [of "b @ ''.''" c] dsplit by auto
  moreover have "CHR ''@'' \<notin> set c" using d(2) dsplit by auto
  ultimately have pc: "plain_run c" by (simp add: plain_run_def)
  show ?thesis
    unfolding matches_email_pattern_def using s pa pb pc by blast
qed

lemma emailRegex_test_complete:
  assumes "matches_email_pattern s"
  shows "emailRegex_test s"
proof -
  from assms obtain a b c where s: "s = a @ ''@'' @ b @ ''.'' @ c"
    and pa: "plain_run a" and pb: "plain_run b" and pc: "plain_run c"
    by (auto simp: matches_email_pattern_def)
  let ?d = "b @ ''.'' @ c"
  have na: "\<forall>x \<in> set a. x \<noteq> CHR ''@''" using pa by (auto simp: plain_run_def)
  have tw: "takeWhile (\<lambda>c. c \<noteq> CHR ''@'') s = a"
    using na by (simp add: s takeWhile_append2)
  have dw: "dropWhile (\<lambda>c. c \<noteq> CHR ''@'') s = CHR ''@'' # ?d"
    using na by (simp add: s dropWhile_append2)
  have "\<not> has_space (b @ CHR ''.'' # c)"
    using has_space_separated [of b "CHR ''.''" c] space_encodings_facts(3) pb pc
    by (auto simp: plain_run_def)
  then have d1: "\<not> has_space ?d" by simp
  have d2: "CHR ''@'' \<notin> set ?d" using pb pc by (simp add: plain_run_def)
  have "b \<noteq> []" "c \<noteq> []" using pb pc by (simp_all add: plain_run_def)
  then have i: "1 \<le> length b" "length b < length ?d - 1"
    by (cases b; cases c; simp)+
  have "?d ! length b = CHR ''.''" by (simp add: nth_append)
  then have ex: "list_ex (\<lambda>i. ?d ! i = CHR ''.'') [1 ..< length ?d - 1]"
    using i unfolding list_ex_iff by (intro bexI [of _ "length b"]) auto
  have a: "a \<noteq> []" "\<not> has_space a"
    using pa by (auto simp: plain_run_def)
  show ?thesis
    unfolding emailRegex_test_def Let_def tw dw using a d1 d2 ex by simp
qed

lemma emailRegex_test_iff: "emailRegex_test s \<longleftrightarrow> matches_email_pattern s"
  using emailRegex_test_sound emailRegex_test_complete by blast

lemma ex_email_nbsp: "\<not> emailRegex_test (''a'' @ [CHR 0xC2, CHR 0xA0] @ ''b@example.com'')"
  by (simp add: emailRegex_test_def space_at_def space_encodings_def)


lemma rows_updateMany:
  "exportSchedule_rows (updateMany_isActive ids u d)
     = map (\<lambda>s. if id_in ids (es_id s) then s\<lparr>es_isActive := bool_update_value u\<rparr> else s)
         (exportSchedule_rows d)"
  by (simp add: updateMany_isActive_def)







lemma tenant_new_schedule: "es_tenantId (new_schedule e uuid uid t f) = t"
  by (simp add: new_schedule_def)

lemma create_schedule_Inr:
  "create_schedule s d = Inr d' \<Longrightarrow> d' = d\<lparr>exportSchedule_rows := exportSchedule_rows d @ [s]\<rparr>"
  by (simp add: create_schedule_def split: if_splits)

lemma POST_store:
  assumes "P d"
    and "\<And>uuid uid t f d'. create_schedule (new_schedule e uuid uid t f) d = Inr d' \<Longrightarrow>
           \<not> 20 \<le> schedule_count d t \<Longrightarrow> P d'"
  shows "P (snd (POST e req d))"
  unfolding POST_def
  by (simp add: assms split: option.split sum.split bool.split)

lemma POST_cases:
  "snd (POST e req d) = d \<or>
   (\<exists>s. snd (POST e req d) = d\<lparr>exportSchedule_rows := exportSchedule_rows d @ [s]\<rparr> \<and>
        schedule_count d (es_tenantId s) < 20)"
proof (rule POST_store [where P = "\<lambda>x. x = d \<or>
   (\<exists>s. x = d\<lparr>exportSchedule_rows := exportSchedule_rows d @ [s]\<rparr> \<and>
        schedule_count d (es_tenantId s) < 20)"])
  show "d = d \<or> (\<exists>s. d = d\<lparr>exportSchedule_rows := exportSchedule_rows d @ [s]\<rparr> \<and>
        schedule_count d (es_tenantId s) < 20)" by simp
next
  fix uuid uid t f d'
  assume c: "create_schedule (new_schedule e uuid uid t f) d = Inr d'"
    and l: "\<not> 20 \<le> schedule_count d t"
  have "d' = d\<lparr>exportSchedule_rows := exportSchedule_rows d @ [new_schedule e uuid uid t f]\<rparr>"
    using c by (rule create_schedule_Inr)
  moreover have "schedule_count d (es_tenantId (new_schedule e uuid uid t f)) < 20"
    using l by (simp add: tenant_new_schedule)
  ultimately show "d' = d \<or> (\<exists>s. d' = d\<lparr>exportSchedule_rows := exportSchedule_rows d @ [s]\<rparr> \<and>
        schedule_count d (es_tenantId s) < 20)" by blast
qed

lemma schedule_count_append:
  "schedule_count (d\<lparr>exportSchedule_rows := exportSchedule_rows d @ [s]\<rparr>) t
     = schedule_count d t + (if es_tenantId s = t then 1 else 0)"
  by (simp add: schedule_count_def)


lemma POST_at_limit_count:
  "20 \<le> schedule_count d t \<Longrightarrow> schedule_count (snd (POST e req d)) t = schedule_count d t"
  using POST_cases [of e req d]
  by (auto simp: schedule_count_append)


text \<open>
  The creation handler is written to append a row below the limit, as the lemmas above
  allow; but the id of the row is made by \<^verbatim>\<open>crypto.getRandomUUID()\<close>, which raises, so the
  handler leaves every store as it is and answers a request that passes all its checks
  with the 500 of its \<^verbatim>\<open>catch\<close>.
\<close>

lemma POST_creates_nothing: "snd (POST e req d) = d"
  by (simp add: POST_def crypto_getRandomUUID_def split: option.split sum.split bool.split)

text \<open>The bulk handlers, once the caller is admitted.\<close>

lemma PATCH_toggle:
  assumes "rateLimit e (identifier_of req)" "session_id e = Some uid"
    "hasPermission e uid ''admin:users:export''"
    "json_body req = Some b" "destructure b = Inr f"
    "f ''action'' = JStr ''toggleActive''" "f ''scheduleIds'' = JArr ids"
  shows "PATCH e req d = (\<lparr>status = 200, payload = MessageBody ''Schedules updated''\<rparr>,
                           updateMany_isActive ids (NotOf True) d)"
  unfolding PATCH_def using assms by (simp add: isArray_def elements_def)

lemma DELETE_ids:
  assumes "rateLimit e (identifier_of req)" "session_id e = Some uid"
    "hasPermission e uid ''admin:users:export''" "ids_param req = Some p"
  shows "snd (DELETE e req d) = snd (deleteMany (split_comma p) d)"
    and "status (fst (DELETE e req d)) = 200"
proof -
  have "split_comma p \<noteq> []" by (cases p) (auto split: list.splits)
  then show "snd (DELETE e req d) = snd (deleteMany (split_comma p) d)"
    and "status (fst (DELETE e req d)) = 200"
    unfolding DELETE_def using assms by (simp_all add: Let_def split: prod.splits)
qed

lemma rows_toggle:
  "exportSchedule_rows (updateMany_isActive ids (NotOf True) d)
     = map (\<lambda>s. if JStr (es_id s) \<in> set ids then s\<lparr>es_isActive := JBool False\<rparr> else s)
         (exportSchedule_rows d)"
  by (simp add: rows_updateMany id_in_def bool_update_value_def)

lemma rows_deleteMany:
  "exportSchedule_rows (snd (deleteMany ids d)) = filter (\<lambda>s. es_id s \<notin> set ids) (exportSchedule_rows d)"
  "exportScheduleExecution_rows (snd (deleteMany ids d))
     = filter (\<lambda>x. ese_scheduleId x \<notin> set ids) (exportScheduleExecution_rows d)"
  "user_rows (snd (deleteMany ids d)) = user_rows d"
  by (simp_all add: deleteMany_def Let_def)

text \<open>Facts about the example data.\<close>

lemma ex_gates:
  "rateLimit (ex_env (Some ''u1'')) (identifier_of (ex_request b p))"
  "session_id (ex_env (Some ''u1'')) = Some ''u1''"
  "hasPermission (ex_env (Some ''u1'')) ''u1'' ''admin:users:export''"
  by (simp_all add: ex_env_def session_id_def)

lemma ex_tenant: "user_tenant ex_db ''u1'' = Some ''t1''" "user_tenant ex_db_full ''u1'' = Some ''t1''"
  by (simp_all add: user_tenant_def ex_db_def ex_db_full_def ex_user_def)






lemma ex_toggle_body:
  "destructure (JObj [(''action'', JStr ''toggleActive''), (''scheduleIds'', JArr ids)])
     = Inr (get_prop [(''action'', JStr ''toggleActive''), (''scheduleIds'', JArr ids)])"
  "get_prop [(''action'', JStr ''toggleActive''), (''scheduleIds'', JArr ids)] ''action''
     = JStr ''toggleActive''"
  "get_prop [(''action'', JStr ''toggleActive''), (''scheduleIds'', JArr ids)] ''scheduleIds''
     = JArr ids"
  by (simp_all add: destructure_def get_prop_Cons get_prop_Nil Object_prototype_def)

lemma ex_request_simps:
  "json_body (ex_request b p) = b" "ids_param (ex_request b p) = p"
  by (simp_all add: ex_request_def)

text \<open>
  C2. A creation request whose body lacks a truthy name, frequency or format, or whose
  recipients are missing (falsy) or the empty array, creates no export schedule: the
  store is unchanged, whatever the collaborators answer. When the request reaches the
  validation (the rate limit admits it, there is a session, the user holds the permission
  and belongs to a tenant), the response is the 400 with the message about the missing
  required fields.
\<close>

theorem POST_missing_field_rejected:
  assumes "json_body req = Some b" and "destructure b = Inr f"
    and "\<not> truthy (f ''name'') \<or> \<not> truthy (f ''frequency'') \<or> \<not> truthy (f ''format'') \<or>
         \<not> truthy (f ''recipients'') \<or> f ''recipients'' = JArr []"
  shows "snd (POST e req d) = d \<and>
         (rateLimit e (identifier_of req) \<and> session_id e = Some uid \<and>
          hasPermission e uid ''admin:users:export'' \<and> user_tenant d uid = Some t \<longrightarrow>
          fst (POST e req d)
            = \<lparr>status = 400,
               payload = ErrorBody ''Missing required fields: name, frequency, format, recipients''\<rparr>)"
proof -
  have m: "missing_required f"
    using assms(3) by (auto simp: missing_required_def js_length_def)
  have 1: "snd (POST e req d) = d"
    unfolding POST_def using assms(1,2) m by (simp split: option.split)
  have 2: "fst (POST e req d)
            = \<lparr>status = 400,
               payload = ErrorBody ''Missing required fields: name, frequency, format, recipients''\<rparr>"
    if "rateLimit e (identifier_of req)" "session_id e = Some uid"
       "hasPermission e uid ''admin:users:export''" "user_tenant d uid = Some t"
    unfolding POST_def using assms(1,2) m that by (simp add: error_response_def)
  show ?thesis using 1 2 by blast
qed

theorem POST_missing_field_rejected_witness:
  "POST (ex_env (Some ''u1'')) (ex_request (Some ex_body_no_name) None) ex_db
     = (\<lparr>status = 400,
         payload = ErrorBody ''Missing required fields: name, frequency, format, recipients''\<rparr>, ex_db)"
proof -
  have b: "json_body (ex_request (Some ex_body_no_name) None) = Some ex_body_no_name"
    by (simp add: ex_request_def)
  have f: "destructure ex_body_no_name
             = Inr (get_prop [(''frequency'', JStr ''weekly''), (''format'', JStr ''csv''),
                              (''recipients'', JArr [JStr ''ops@example.com''])])"
    by (simp add: destructure_def ex_body_no_name_def)
  have n: "\<not> truthy (get_prop [(''frequency'', JStr ''weekly''), (''format'', JStr ''csv''),
                              (''recipients'', JArr [JStr ''ops@example.com''])] ''name'')"
    by (simp add: get_prop_Cons get_prop_Nil Object_prototype_def)
  show ?thesis
    using POST_missing_field_rejected [OF b f, of "ex_env (Some ''u1'')" ex_db "''u1''" "''t1''"]
      n ex_gates ex_tenant
    by (simp add: prod_eq_iff)
qed



text \<open>
  C1. A PATCH with action "toggleActive" and a list of schedule ids, once the caller is
  admitted, performs one bulk update whose payload is the same constant for every row:
  each row whose id is listed gets \<open>isActive\<close> = "not true", that is false, whatever value
  it held before, and every other row is left as it was. No row's own value is read or
  flipped: all listed rows end with the same \<open>isActive\<close>.
\<close>

theorem toggleActive_sets_one_constant:
  assumes "rateLimit e (identifier_of req)" and "session_id e = Some uid"
    and "hasPermission e uid ''admin:users:export''"
    and "json_body req = Some b" and "destructure b = Inr f"
    and "f ''action'' = JStr ''toggleActive''" and "f ''scheduleIds'' = JArr ids"
  shows "fst (PATCH e req d) = \<lparr>status = 200, payload = MessageBody ''Schedules updated''\<rparr> \<and>
         exportSchedule_rows (snd (PATCH e req d))
           = map (\<lambda>s. if JStr (es_id s) \<in> set ids then s\<lparr>es_isActive := JBool False\<rparr> else s)
               (exportSchedule_rows d) \<and>
         (\<forall>s \<in> set (exportSchedule_rows (snd (PATCH e req d))).
            JStr (es_id s) \<in> set ids \<longrightarrow> es_isActive s = JBool False) \<and>
         (\<forall>s \<in> set (exportSchedule_rows (snd (PATCH e req d))).
          \<forall>s' \<in> set (exportSchedule_rows (snd (PATCH e req d))).
            JStr (es_id s) \<in> set ids \<and> JStr (es_id s') \<in> set ids \<longrightarrow> es_isActive s = es_isActive s')"
proof -
  have p: "PATCH e req d = (\<lparr>status = 200, payload = MessageBody ''Schedules updated''\<rparr>,
                           updateMany_isActive ids (NotOf True) d)"
    using assms by (rule PATCH_toggle)
  have 1: "fst (PATCH e req d) = \<lparr>status = 200, payload = MessageBody ''Schedules updated''\<rparr>"
    by (simp only: p fst_conv)
  have 2: "exportSchedule_rows (snd (PATCH e req d))
           = map (\<lambda>s. if JStr (es_id s) \<in> set ids then s\<lparr>es_isActive := JBool False\<rparr> else s)
               (exportSchedule_rows d)"
    by (simp only: p snd_conv rows_toggle)
  have 3: "es_isActive s = JBool False"
    if "s \<in> set (exportSchedule_rows (snd (PATCH e req d)))" "JStr (es_id s) \<in> set ids" for s
  proof -
    have "s \<in> (\<lambda>s. if JStr (es_id s) \<in> set ids then s\<lparr>es_isActive := JBool False\<rparr> else s)
                ` set (exportSchedule_rows d)"
      using that(1) by (simp only: 2 set_map)
    then obtain s0 where s: "s = (if JStr (es_id s0) \<in> set ids then s0\<lparr>es_isActive := JBool False\<rparr> else s0)"
      by blast
    show ?thesis
    proof (cases "JStr (es_id s0) \<in> set ids")
      case True
      then show ?thesis using s by simp
    next
      case False
      then show ?thesis using s that(2) by simp
    qed
  qed
  have 4: "es_isActive s = es_isActive s'"
    if "s \<in> set (exportSchedule_rows (snd (PATCH e req d)))" "JStr (es_id s) \<in> set ids"
       "s' \<in> set (exportSchedule_rows (snd (PATCH e req d)))" "JStr (es_id s') \<in> set ids" for s s'
    using 3 [OF that(1,2)] 3 [OF that(3,4)] by simp
  show ?thesis using 1 2 3 4 by blast
qed

theorem toggleActive_sets_one_constant_witness:
  "fst (PATCH (ex_env (Some ''u1''))
          (ex_request (Some (JObj [(''action'', JStr ''toggleActive''),
                                   (''scheduleIds'', JArr [JStr ''a'', JStr ''b''])])) None) ex_db)
     = \<lparr>status = 200, payload = MessageBody ''Schedules updated''\<rparr> \<and>
   exportSchedule_rows ex_db
     = [ex_schedule ''a'' ''t1'' True, ex_schedule ''b'' ''t1'' False, ex_schedule ''c'' ''t2'' True] \<and>
   exportSchedule_rows (snd (PATCH (ex_env (Some ''u1''))
          (ex_request (Some (JObj [(''action'', JStr ''toggleActive''),
                                   (''scheduleIds'', JArr [JStr ''a'', JStr ''b''])])) None) ex_db))
     = [ex_schedule ''a'' ''t1'' False, ex_schedule ''b'' ''t1'' False, ex_schedule ''c'' ''t2'' True]"
proof -
  let ?ids = "[JStr ''a'', JStr ''b'']"
  let ?b = "JObj [(''action'', JStr ''toggleActive''), (''scheduleIds'', JArr ?ids)]"
  let ?req = "ex_request (Some ?b) None"
  note t = toggleActive_sets_one_constant [of "ex_env (Some ''u1'')" ?req "''u1''" ?b
      "get_prop [(''action'', JStr ''toggleActive''), (''scheduleIds'', JArr ?ids)]" ?ids ex_db,
      OF ex_gates ex_request_simps(1) ex_toggle_body]
  have 1: "fst (PATCH (ex_env (Some ''u1'')) ?req ex_db)
             = \<lparr>status = 200, payload = MessageBody ''Schedules updated''\<rparr>"
    using t by blast
  have "exportSchedule_rows (snd (PATCH (ex_env (Some ''u1'')) ?req ex_db))
          = map (\<lambda>s. if JStr (es_id s) \<in> set ?ids then s\<lparr>es_isActive := JBool False\<rparr> else s)
              (exportSchedule_rows ex_db)"
    using t by blast
  then have 2: "exportSchedule_rows (snd (PATCH (ex_env (Some ''u1'')) ?req ex_db))
          = [ex_schedule ''a'' ''t1'' False, ex_schedule ''b'' ''t1'' False, ex_schedule ''c'' ''t2'' True]"
    by (simp add: ex_db_def ex_schedule_def)
  have 3: "exportSchedule_rows ex_db
     = [ex_schedule ''a'' ''t1'' True, ex_schedule ''b'' ''t1'' False, ex_schedule ''c'' ''t2'' True]"
    by (simp add: ex_db_def)
  show ?thesis using 1 2 3 by blast
qed

text \<open>
  C9. In the bulk PATCH ("toggleActive") and the bulk DELETE, the rows affected are
  exactly the rows whose id is in the supplied list: the resulting table is a function of
  the old table and the list alone, with no condition on tenant or owner. A caller who is
  admitted (session and permission) therefore updates or deletes a listed schedule also
  when it belongs to a tenant other than the caller's.
\<close>

theorem bulk_operations_select_by_id_only:
  assumes "rateLimit e (identifier_of req)" and "session_id e = Some uid"
    and "hasPermission e uid ''admin:users:export''"
  shows "(json_body req = Some b \<and> destructure b = Inr f \<and>
          f ''action'' = JStr ''toggleActive'' \<and> f ''scheduleIds'' = JArr ids \<longrightarrow>
            exportSchedule_rows (snd (PATCH e req d))
              = map (\<lambda>s. if JStr (es_id s) \<in> set ids then s\<lparr>es_isActive := JBool False\<rparr> else s)
                  (exportSchedule_rows d) \<and>
            (\<forall>s \<in> set (exportSchedule_rows d).
               JStr (es_id s) \<in> set ids \<and> user_tenant d uid \<noteq> Some (es_tenantId s) \<longrightarrow>
               s\<lparr>es_isActive := JBool False\<rparr> \<in> set (exportSchedule_rows (snd (PATCH e req d))))) \<and>
         (ids_param req = Some p \<longrightarrow>
            status (fst (DELETE e req d)) = 200 \<and>
            exportSchedule_rows (snd (DELETE e req d))
              = filter (\<lambda>s. es_id s \<notin> set (split_comma p)) (exportSchedule_rows d) \<and>
            exportScheduleExecution_rows (snd (DELETE e req d))
              = filter (\<lambda>x. ese_scheduleId x \<notin> set (split_comma p)) (exportScheduleExecution_rows d) \<and>
            (\<forall>s \<in> set (exportSchedule_rows d).
               es_id s \<in> set (split_comma p) \<and> user_tenant d uid \<noteq> Some (es_tenantId s) \<longrightarrow>
               s \<notin> set (exportSchedule_rows (snd (DELETE e req d)))))"
proof -
  have P: "exportSchedule_rows (snd (PATCH e req d))
              = map (\<lambda>s. if JStr (es_id s) \<in> set ids then s\<lparr>es_isActive := JBool False\<rparr> else s)
                  (exportSchedule_rows d)"
    if h: "json_body req = Some b" "destructure b = Inr f"
       "f ''action'' = JStr ''toggleActive''" "f ''scheduleIds'' = JArr ids"
    using PATCH_toggle [OF assms h, of d] by (simp only: snd_conv rows_toggle)
  have P2: "s\<lparr>es_isActive := JBool False\<rparr> \<in> set (exportSchedule_rows (snd (PATCH e req d)))"
    if h: "json_body req = Some b" "destructure b = Inr f"
       "f ''action'' = JStr ''toggleActive''" "f ''scheduleIds'' = JArr ids"
      and s: "s \<in> set (exportSchedule_rows d)" "JStr (es_id s) \<in> set ids" for s
  proof -
    let ?g = "\<lambda>s. if JStr (es_id s) \<in> set ids then s\<lparr>es_isActive := JBool False\<rparr> else s"
    have "?g s \<in> ?g ` set (exportSchedule_rows d)" using s(1) by (rule imageI)
    then show ?thesis using s(2) by (simp only: P [OF h] set_map if_True)
  qed
  have D: "exportSchedule_rows (snd (DELETE e req d))
              = filter (\<lambda>s. es_id s \<notin> set (split_comma p)) (exportSchedule_rows d)"
          "exportScheduleExecution_rows (snd (DELETE e req d))
              = filter (\<lambda>x. ese_scheduleId x \<notin> set (split_comma p)) (exportScheduleExecution_rows d)"
          "status (fst (DELETE e req d)) = 200"
    if h: "ids_param req = Some p"
    using DELETE_ids [OF assms h, of d] by (simp_all only: rows_deleteMany)
  have D2: "s \<notin> set (exportSchedule_rows (snd (DELETE e req d)))"
    if h: "ids_param req = Some p" and s: "es_id s \<in> set (split_comma p)" for s
    using s by (simp add: D(1) [OF h])
  show ?thesis using P P2 D D2 by blast
qed

theorem bulk_operations_select_by_id_only_witness:
  "user_tenant ex_db ''u1'' = Some ''t1'' \<and>
   ex_schedule ''c'' ''t2'' True \<in> set (exportSchedule_rows ex_db) \<and>
   exportSchedule_rows (snd (DELETE (ex_env (Some ''u1'')) (ex_request None (Some ''c'')) ex_db))
     = [ex_schedule ''a'' ''t1'' True, ex_schedule ''b'' ''t1'' False] \<and>
   exportScheduleExecution_rows (snd (DELETE (ex_env (Some ''u1'')) (ex_request None (Some ''c'')) ex_db))
     = [] \<and>
   exportSchedule_rows (snd (PATCH (ex_env (Some ''u1''))
       (ex_request (Some (JObj [(''action'', JStr ''toggleActive''),
                                (''scheduleIds'', JArr [JStr ''c''])])) None) ex_db))
     = [ex_schedule ''a'' ''t1'' True, ex_schedule ''b'' ''t1'' False, ex_schedule ''c'' ''t2'' False]"
proof -
  let ?e = "ex_env (Some ''u1'')"
  let ?ids = "[JStr ''c'']"
  let ?b = "JObj [(''action'', JStr ''toggleActive''), (''scheduleIds'', JArr ?ids)]"
  let ?f = "get_prop [(''action'', JStr ''toggleActive''), (''scheduleIds'', JArr ?ids)]"
  note td = bulk_operations_select_by_id_only
      [of ?e "ex_request None (Some ''c'')" "''u1''" JNull "\<lambda>k. JNull" "[]" ex_db "''c''",
       OF ex_gates]
  note tp = bulk_operations_select_by_id_only
      [of ?e "ex_request (Some ?b) None" "''u1''" ?b ?f ?ids ex_db "''c''", OF ex_gates]
  have sp: "split_comma ''c'' = [''c'']" by simp
  have d1: "exportSchedule_rows (snd (DELETE ?e (ex_request None (Some ''c'')) ex_db))
          = filter (\<lambda>s. es_id s \<notin> set (split_comma ''c'')) (exportSchedule_rows ex_db)"
    using td ex_request_simps(2) by blast
  have d2: "exportScheduleExecution_rows (snd (DELETE ?e (ex_request None (Some ''c'')) ex_db))
          = filter (\<lambda>x. ese_scheduleId x \<notin> set (split_comma ''c'')) (exportScheduleExecution_rows ex_db)"
    using td ex_request_simps(2) by blast
  have p1: "exportSchedule_rows (snd (PATCH ?e (ex_request (Some ?b) None) ex_db))
          = map (\<lambda>s. if JStr (es_id s) \<in> set ?ids then s\<lparr>es_isActive := JBool False\<rparr> else s)
              (exportSchedule_rows ex_db)"
    using tp ex_request_simps(1) ex_toggle_body by blast
  have 1: "exportSchedule_rows (snd (DELETE ?e (ex_request None (Some ''c'')) ex_db))
     = [ex_schedule ''a'' ''t1'' True, ex_schedule ''b'' ''t1'' False]"
    unfolding d1 sp by (simp add: ex_db_def ex_schedule_def)
  have 2: "exportScheduleExecution_rows (snd (DELETE ?e (ex_request None (Some ''c'')) ex_db)) = []"
    unfolding d2 sp by (simp add: ex_db_def)
  have 3: "exportSchedule_rows (snd (PATCH ?e (ex_request (Some ?b) None) ex_db))
     = [ex_schedule ''a'' ''t1'' True, ex_schedule ''b'' ''t1'' False, ex_schedule ''c'' ''t2'' False]"
    unfolding p1 by (simp add: ex_db_def ex_schedule_def)
  have 4: "ex_schedule ''c'' ''t2'' True \<in> set (exportSchedule_rows ex_db)"
    by (simp add: ex_db_def)
  show ?thesis using 1 2 3 4 ex_tenant(1) by blast
qed

subsection \<open>Filter presets\<close>

text \<open>
  The handlers do serve and change presets: a public preset is returned to a user who
  does not own it, and the owner can update and delete.
\<close>

lemma preset_GET_public:
  "fst (preset_GET (ex_preset_env ''u1'') ''p2'' ex_preset_db)
     = Ok (PresetPayload (ex_preset ''p2'' True ''u2'')
            (Some \<lparr>cr_id = ''u2'', cr_name = JStr ''Una'', cr_image = JNull\<rparr>) (JObj []))"
  by (simp add: preset_GET_def ctx_user_def findUnique_def creator_of_def ex_preset_env_def
      ex_preset_db_def ex_preset_def)

lemma preset_DELETE_owner:
  "preset_DELETE (ex_preset_env ''u2'') ''p1'' ex_preset_db
     = (Ok (MessagePayload ''Preset deleted successfully''),
        ex_preset_db\<lparr>filter_presets := [ex_preset ''p2'' True ''u2'']\<rparr>)"
  by (simp add: preset_DELETE_def ctx_user_def findUnique_def delete_preset_def ex_preset_env_def
      ex_preset_db_def ex_preset_def)

lemma preset_PATCH_owner:
  "preset_PATCH (ex_preset_env ''u2'') ''p1'' (Some (JObj [(''isPublic'', JBool True)])) ex_preset_db
     = (Ok (PresetPayload ((ex_preset ''p1'' True ''u2'')\<lparr>fp_updatedAt := 1000\<rparr>)
              (Some \<lparr>cr_id = ''u2'', cr_name = JStr ''Una'', cr_image = JNull\<rparr>) (JObj [])),
        ex_preset_db\<lparr>filter_presets :=
          [(ex_preset ''p1'' True ''u2'')\<lparr>fp_updatedAt := 1000\<rparr>, ex_preset ''p2'' True ''u2'']\<rparr>)"
  by (simp add: preset_PATCH_def ctx_user_def findUnique_def creator_of_def update_preset_def
      updateData_def name_taken_def destructure_def get_prop_Cons get_prop_Nil Object_prototype_def if_defined_def
      ex_preset_env_def ex_preset_db_def ex_preset_def)

text \<open>
  C5. For a request by an authenticated user on an existing filter preset: GET answers
  403 when the preset is neither public nor created by the requesting user; PATCH and
  DELETE answer 403 when the preset was not created by the requesting user, whether it
  is public or not. In each of these cases the response carries no preset and the store
  is unchanged: the preset is neither returned, modified nor deleted.
\<close>

theorem preset_forbidden:
  assumes "ctx_userId e = Inr (Some u)" and "u \<noteq> []" and "findUnique d i = Some preset"
  shows "(\<not> truthy (fp_isPublic preset) \<and> fp_createdBy preset \<noteq> u \<longrightarrow>
            preset_GET e i d = (Forbidden, d)) \<and>
         (fp_createdBy preset \<noteq> u \<longrightarrow>
            preset_PATCH e i body d = (Forbidden, d) \<and> preset_DELETE e i d = (Forbidden, d)) \<and>
         status_of Forbidden = 403"
  using assms by (simp add: preset_GET_def preset_PATCH_def preset_DELETE_def ctx_user_def)

theorem preset_forbidden_witness:
  "preset_GET (ex_preset_env ''u1'') ''p1'' ex_preset_db = (Forbidden, ex_preset_db) \<and>
   preset_PATCH (ex_preset_env ''u1'') ''p2'' (Some (JObj [(''name'', JStr ''Mine'')])) ex_preset_db
     = (Forbidden, ex_preset_db) \<and>
   preset_DELETE (ex_preset_env ''u1'') ''p2'' ex_preset_db = (Forbidden, ex_preset_db) \<and>
   status_of Forbidden = 403"
proof -
  have c: "ctx_userId (ex_preset_env ''u1'') = Inr (Some ''u1'')" "''u1'' \<noteq> []"
    by (simp_all add: ex_preset_env_def)
  have f1: "findUnique ex_preset_db ''p1'' = Some (ex_preset ''p1'' False ''u2'')"
    and f2: "findUnique ex_preset_db ''p2'' = Some (ex_preset ''p2'' True ''u2'')"
    by (simp_all add: findUnique_def ex_preset_db_def ex_preset_def)
  have o: "\<not> truthy (fp_isPublic (ex_preset ''p1'' False ''u2''))"
    "fp_createdBy (ex_preset ''p1'' False ''u2'') \<noteq> ''u1''"
    "fp_createdBy (ex_preset ''p2'' True ''u2'') \<noteq> ''u1''"
    by (simp_all add: ex_preset_def)
  show ?thesis
    using preset_forbidden [OF c f1, of "Some (JObj [(''name'', JStr ''Mine'')])"]
      preset_forbidden [OF c f2, of "Some (JObj [(''name'', JStr ''Mine'')])"] o
    by blast
qed

subsection \<open>Report generation\<close>

text \<open>
  The inner \<^verbatim>\<open>try\<close> statement by itself, started in a store that holds the execution
  record. When its body raises and the update of the \<^verbatim>\<open>catch\<close> goes through, the record
  is marked failed with the message of the error (the fixed text "Unknown error" for a
  thrown value that is no \<^verbatim>\<open>Error\<close>) and the time, and the same exception leaves the
  statement.
\<close>

lemma update_execution_ids:
  assumes "update_execution e c xid upd d = Inr d'" and "\<And>x. rx_id (upd x) = rx_id x"
  shows "map rx_id (reportExecutions d') = map rx_id (reportExecutions d)"
proof -
  have "d' = d\<lparr>reportExecutions := map (\<lambda>x. if rx_id x = xid then upd x else x) (reportExecutions d)\<rparr>"
    using assms(1) by (simp add: update_execution_def split: option.splits if_splits)
  moreover have "map rx_id (map (\<lambda>x. if rx_id x = xid then upd x else x) xs) = map rx_id xs" for xs
    by (induction xs) (simp_all add: assms(2))
  ultimately show ?thesis by simp
qed

lemma update_report_executions:
  "update_report e j upd d = Inr d' \<Longrightarrow> reportExecutions d' = reportExecutions d"
  by (auto simp: update_report_def split: option.splits if_splits)

lemma generate_inner_keeps_ids:
  assumes "generate_inner e report format filters xid d = (out, d1)"
  shows "map rx_id (reportExecutions d1) = map rx_id (reportExecutions d)"
proof (cases "d1 = d")
  case True
  then show ?thesis by simp
next
  case False
  then obtain upd d' where
    u: "update_execution e ReportExecution_update_completed xid upd d = Inr d'"
      "\<And>x. rx_id (upd x) = rx_id x"
    and d1: "d1 = d' \<or> (\<exists>j updr. update_report e j updr d' = Inr d1)"
    using assms
    unfolding generate_inner_def Let_def
    by (fastforce split: option.splits sum.splits prod.splits)
  have "reportExecutions d1 = reportExecutions d'"
    using d1 update_report_executions by blast
  then show ?thesis using update_execution_ids [OF u] by simp
qed

lemma try_generate_records_failure:
  assumes "generate_inner e report format filters xid d = (Inl err, d1)"
    and "store_raises e ReportExecution_update_failed = None"
    and "xid \<in> set (map rx_id (reportExecutions d))"
  shows "try_generate e report format filters xid d
         = (Inl err,
            d1\<lparr>reportExecutions :=
                 map (\<lambda>x. if rx_id x = xid
                          then x\<lparr>rx_status := ''failed'',
                                 rx_errorMessage :=
                                   Some (case err of Error m \<Rightarrow> m | Thrown v \<Rightarrow> ''Unknown error''),
                                 rx_completedAt := Some (failedAt e)\<rparr>
                          else x)
                     (reportExecutions d1)\<rparr>)"
proof -
  have "xid \<in> set (map rx_id (reportExecutions d1))"
    using generate_inner_keeps_ids [OF assms(1)] assms(3) by simp
  then show ?thesis
    using assms(1,2)
    by (simp add: try_generate_def record_failure_def update_execution_def errorMessage_def)
qed

text \<open>
  At the example store, with the summary helper raising: an \<^verbatim>\<open>Error\<close> leaves its message,
  another thrown value the fixed text. When it is the report's update that raises, the
  execution has been completed before and keeps its file size.
\<close>

lemma ex_try_generate_error:
  "try_generate (ex_generate_env (Inl (Error ''boom''))) ex_report ''csv'' JUndefined ''x1''
     ex_report_db_running
   = (Inl (Error ''boom''),
      ex_report_db\<lparr>reportExecutions :=
        [\<lparr>rx_id = ''x1'', rx_reportId = ''r1'', rx_status = ''failed'', rx_executedAt = 10,
          rx_completedAt = Some 30, rx_fileSizeBytes = None,
          rx_errorMessage = Some ''boom''\<rparr>]\<rparr>)"
  by (simp add: try_generate_def generate_inner_def record_failure_def update_execution_def
      errorMessage_def build_reportData_def first_section_def ex_generate_env_def
      ex_report_db_running_def ex_report_db_def ex_report_def)

lemma ex_try_generate_thrown:
  "try_generate (ex_generate_env (Inl (Thrown (JStr ''boom'')))) ex_report ''csv'' JUndefined ''x1''
     ex_report_db_running
   = (Inl (Thrown (JStr ''boom'')),
      ex_report_db\<lparr>reportExecutions :=
        [\<lparr>rx_id = ''x1'', rx_reportId = ''r1'', rx_status = ''failed'', rx_executedAt = 10,
          rx_completedAt = Some 30, rx_fileSizeBytes = None,
          rx_errorMessage = Some ''Unknown error''\<rparr>]\<rparr>)"
  by (simp add: try_generate_def generate_inner_def record_failure_def update_execution_def
      errorMessage_def build_reportData_def first_section_def ex_generate_env_def
      ex_report_db_running_def ex_report_db_def ex_report_def)

lemma ex_try_generate_report_update_raises:
  "try_generate
     ((ex_generate_env (Inr None))
        \<lparr>store_raises := (\<lambda>c. if c = Report_update then Some (Error ''store away'') else None)\<rparr>)
     ex_report ''csv'' JUndefined ''x1'' ex_report_db_running
   = (Inl (Error ''store away''),
      ex_report_db\<lparr>reportExecutions :=
        [\<lparr>rx_id = ''x1'', rx_reportId = ''r1'', rx_status = ''failed'', rx_executedAt = 10,
          rx_completedAt = Some 30, rx_fileSizeBytes = Some 12,
          rx_errorMessage = Some ''store away''\<rparr>]\<rparr>)"
  by (simp add: try_generate_def generate_inner_def record_failure_def update_execution_def
      update_report_def errorMessage_def build_reportData_def first_section_def
      generate_content_def generateCSVReport_def csv_header_def csv_row_def csv_cell_def
      double_quotes_def js_or_def get_prop_Cons get_prop_Nil Object_prototype_def
      tenant_users_def select_user_def ex_user_def
      ex_generate_env_def ex_report_db_running_def ex_report_db_def ex_report_def)

lemma ex_filename: "spaces_to_hyphen ''Staff list'' = ''Staff-list''"
  by (simp add: spaces_to_hyphen_def space_at_def space_encodings_def)

lemma ex_try_generate_succeeds:
  "try_generate (ex_generate_env (Inr None)) ex_report ''csv'' JUndefined ''x1'' ex_report_db_running
   = (Inr (File ([DQ] @ ''Name'' @ [DQ, NL] @ [DQ] @ ''u1'' @ [DQ, NL]) ''text/csv''
             ''Staff-list-50.csv''),
      \<lparr>reports = [ex_report\<lparr>rp_lastGeneratedAt := Some 40, rp_generationCount := 1\<rparr>],
       reportExecutions =
         [\<lparr>rx_id = ''x1'', rx_reportId = ''r1'', rx_status = ''completed'', rx_executedAt = 10,
           rx_completedAt = Some 20, rx_fileSizeBytes = Some 12, rx_errorMessage = None\<rparr>],
       report_users = [ex_user ''u1'' ''t1'']\<rparr>)"
  by (simp add: try_generate_def generate_inner_def update_execution_def
      update_report_def build_reportData_def first_section_def
      generate_content_def generateCSVReport_def csv_header_def csv_row_def csv_cell_def
      double_quotes_def js_or_def get_prop_Cons get_prop_Nil Object_prototype_def
      tenant_users_def select_user_def ex_user_def
      ex_filename string_of_nat_step string_of_nat_digit digit_char_def
      ex_generate_env_def ex_report_db_running_def ex_report_db_def ex_report_def)



subsection \<open>Filter state\<close>

lemma matches_search_iff:
  "matches_search q u =
     (ci_substring q (u_name u) \<or> ci_substring q (u_email u) \<or>
      ci_substring q (u_phone u) \<or> ci_substring q (u_company u))"
  by (simp add: matches_search_def search_fields_def ci_substring_def includes_iff)

lemma filteredUsers_eq: "filteredUsers fs users = filter (satisfies_all fs) users"
  by (cases "f_role fs"; cases "f_status fs")
     (auto simp: filteredUsers_def satisfies_all_def matches_search_iff intro: filter_cong)

text \<open>
  C7. The filtered-count statistic equals the number of records (counted by position in
  the collection) that satisfy every active predicate under logical AND, text matching
  being case-insensitive substring search over the fixed field list; the filtered subset
  is exactly the records satisfying them; the triple also reports the total record count
  and whether any filter is active.
\<close>

theorem filtered_count_is_and_count:
  "filteredCount (stats fs users) = card {i. i < length users \<and> satisfies_all fs (users ! i)} \<and>
   set (filteredUsers fs users) = {u \<in> set users. satisfies_all fs u} \<and>
   totalCount (stats fs users) = length users \<and>
   isFiltered (stats fs users) = (search fs \<noteq> [] \<or> f_role fs \<noteq> None \<or> f_status fs \<noteq> None)"
  by (simp add: stats_def filteredUsers_eq length_filter_conv_card)

theorem filtered_count_is_and_count_witness:
  "filteredCount (stats \<lparr>search = ''ALI'', f_role = Some ''CLIENT'', f_status = None\<rparr>
     [\<lparr>u_name = ''Alice'', u_email = ''a@x.io'', u_phone = ''1'', u_company = ''Acme'',
        u_role = ''CLIENT'', u_status = ''ACTIVE''\<rparr>,
      \<lparr>u_name = ''Bob'', u_email = ''bob@alimentari.it'', u_phone = ''2'', u_company = ''B'',
        u_role = ''ADMIN'', u_status = ''ACTIVE''\<rparr>,
      \<lparr>u_name = ''Carol'', u_email = ''c@x.io'', u_phone = ''3'', u_company = ''C'',
        u_role = ''CLIENT'', u_status = ''INACTIVE''\<rparr>]) = 1 \<and>
   card {i. i < 3 \<and> satisfies_all \<lparr>search = ''ALI'', f_role = Some ''CLIENT'', f_status = None\<rparr>
     ([\<lparr>u_name = ''Alice'', u_email = ''a@x.io'', u_phone = ''1'', u_company = ''Acme'',
        u_role = ''CLIENT'', u_status = ''ACTIVE''\<rparr>,
      \<lparr>u_name = ''Bob'', u_email = ''bob@alimentari.it'', u_phone = ''2'', u_company = ''B'',
        u_role = ''ADMIN'', u_status = ''ACTIVE''\<rparr>,
      \<lparr>u_name = ''Carol'', u_email = ''c@x.io'', u_phone = ''3'', u_company = ''C'',
        u_role = ''CLIENT'', u_status = ''INACTIVE''\<rparr>] ! i)} = 1"
proof -
  let ?fs = "\<lparr>search = ''ALI'', f_role = Some ''CLIENT'', f_status = None\<rparr>"
  let ?us = "[\<lparr>u_name = ''Alice'', u_email = ''a@x.io'', u_phone = ''1'', u_company = ''Acme'',
        u_role = ''CLIENT'', u_status = ''ACTIVE''\<rparr>,
      \<lparr>u_name = ''Bob'', u_email = ''bob@alimentari.it'', u_phone = ''2'', u_company = ''B'',
        u_role = ''ADMIN'', u_status = ''ACTIVE''\<rparr>,
      \<lparr>u_name = ''Carol'', u_email = ''c@x.io'', u_phone = ''3'', u_company = ''C'',
        u_role = ''CLIENT'', u_status = ''INACTIVE''\<rparr>]"
  have n: "filteredCount (stats ?fs ?us) = 1"
    by (simp add: stats_def filteredUsers_def matches_search_def search_fields_def
        to_lower_def to_lower_char_def)
  have "filteredCount (stats ?fs ?us) = card {i. i < length ?us \<and> satisfies_all ?fs (?us ! i)}"
    using filtered_count_is_and_count [of ?fs ?us] by blast
  with n show ?thesis by (simp add: numeral_3_eq_3)
qed

text \<open>
  The literal counts of the component tests: of 150 users, the role views show 50, 75
  and 25.
\<close>

lemma directory_counts:
  "stats \<lparr>search = [], f_role = None, f_status = None\<rparr> ex_directory
     = \<lparr>totalCount = 150, filteredCount = 150, isFiltered = False\<rparr>"
  "stats \<lparr>search = [], f_role = Some ''CLIENT'', f_status = None\<rparr> ex_directory
     = \<lparr>totalCount = 150, filteredCount = 50, isFiltered = True\<rparr>"
  "stats \<lparr>search = [], f_role = Some ''TEAM'', f_status = None\<rparr> ex_directory
     = \<lparr>totalCount = 150, filteredCount = 75, isFiltered = True\<rparr>"
  "stats \<lparr>search = [], f_role = Some ''ADMIN'', f_status = None\<rparr> ex_directory
     = \<lparr>totalCount = 150, filteredCount = 25, isFiltered = True\<rparr>"
  by (simp_all add: stats_def filteredUsers_def ex_directory_def ex_user_item_def
      filter_replicate)

text \<open>
  C8. A view count strictly greater than 99 is displayed as the literal string "99+";
  a count of 99 or below is displayed as the number itself, in decimal.
\<close>

theorem view_count_display_clamps:
  "(99 < c \<longrightarrow> view_count_display c = ''99+'') \<and>
   (c \<le> 99 \<longrightarrow> view_count_display c = string_of_nat c)"
  by (simp add: view_count_display_def)

theorem view_count_display_clamps_witness:
  "view_count_display 10000 = ''99+'' \<and> view_count_display 100 = ''99+'' \<and>
   view_count_display 99 = ''99'' \<and> view_count_display 0 = ''0''"
proof -
  have a: "view_count_display 10000 = ''99+''"
    using view_count_display_clamps [of 10000] by simp
  have b: "view_count_display 100 = ''99+''"
    using view_count_display_clamps [of 100] by simp
  have c: "view_count_display 99 = string_of_nat 99"
    using view_count_display_clamps [of 99] by simp
  have d: "view_count_display 0 = string_of_nat 0"
    using view_count_display_clamps [of 0] by simp
  have e: "string_of_nat 99 = ''99''"
    by (simp add: string_of_nat_step string_of_nat_digit digit_char_def)
  have f: "string_of_nat 0 = ''0''"
    by (simp add: string_of_nat_digit digit_char_def)
  show ?thesis using a b c d e f by simp
qed

end
